theory Spec2Isabelle
  imports Complex_Main
begin

section \<open>Equation of state: floor configuration (eos/eos.hpp)\<close>

text \<open>
  The class \<^verbatim>\<open>EquationOfState\<close> stores two scalars of the floating-point type
  \<^verbatim>\<open>Real\<close>. Nothing below computes with them, so the scalar type is left as the
  type variable \<open>'r\<close>; the statements then hold for every scalar type, the
  machine one included. The private members \<^verbatim>\<open>pressure_floor_\<close> and
  \<^verbatim>\<open>density_floor_\<close> are the record fields, written without the trailing
  underscore.
\<close>

record 'r EquationOfState =
  pressure_floor :: 'r
  density_floor :: 'r

text \<open>The constructor: its member initialisers copy the two arguments, with no check.\<close>

definition EquationOfState :: "'r \<Rightarrow> 'r \<Rightarrow> 'r EquationOfState" where
  "EquationOfState p d = \<lparr>pressure_floor = p, density_floor = d\<rparr>"

definition GetPressureFloor :: "'r EquationOfState \<Rightarrow> 'r" where
  "GetPressureFloor eos = pressure_floor eos"

definition GetDensityFloor :: "'r EquationOfState \<Rightarrow> 'r" where
  "GetDensityFloor eos = density_floor eos"

text \<open>
  \<^verbatim>\<open>ConservedToPrimitive\<close> and \<^verbatim>\<open>PrimitiveToConserved\<close> are pure virtual: the class
  gives them no body. A concrete variant supplies both; it is a pair of functions
  here. Both are declared \<^verbatim>\<open>const\<close>, so a body reads the object and rewrites
  only the container \<^verbatim>\<open>rc\<close> it is handed: it maps the object, the container and
  the six index bounds to the new container.
\<close>

record ('r, 'c) EosVariant =
  ConservedToPrimitive ::
    "'r EquationOfState \<Rightarrow> 'c \<Rightarrow> int \<Rightarrow> int \<Rightarrow> int \<Rightarrow> int \<Rightarrow> int \<Rightarrow> int \<Rightarrow> 'c"
  PrimitiveToConserved ::
    "'r EquationOfState \<Rightarrow> 'c \<Rightarrow> int \<Rightarrow> int \<Rightarrow> int \<Rightarrow> int \<Rightarrow> int \<Rightarrow> int \<Rightarrow> 'c"

text \<open>One call of a member function of the class, with its arguments.\<close>

datatype EosCall =
    CallConservedToPrimitive int int int int int int
  | CallPrimitiveToConserved int int int int int int
  | CallGetPressureFloor
  | CallGetDensityFloor

text \<open>
  The effect of one call on the pair of the object and the container. All four
  member functions are \<^verbatim>\<open>const\<close>: the object comes back as it went in, and the
  two getters leave the container alone as well.
\<close>

fun invoke :: "('r, 'c) EosVariant \<Rightarrow> EosCall \<Rightarrow> 'r EquationOfState \<times> 'c
    \<Rightarrow> 'r EquationOfState \<times> 'c" where
  "invoke v (CallConservedToPrimitive il iu jl ju kl ku) (eos, rc) =
     (eos, ConservedToPrimitive v eos rc il iu jl ju kl ku)"
| "invoke v (CallPrimitiveToConserved il iu jl ju kl ku) (eos, rc) =
     (eos, PrimitiveToConserved v eos rc il iu jl ju kl ku)"
| "invoke v CallGetPressureFloor (eos, rc) = (eos, rc)"
| "invoke v CallGetDensityFloor (eos, rc) = (eos, rc)"

section \<open>The task framework the driver builds on\<close>

text \<open>
  The driver is written against a task framework and a mesh library whose sources
  lie outside the driver's own file. What the driver needs of them is written out
  here, each piece from the words of the specification and marked as such.
\<close>

text \<open>
  Every way in which the driver's code can stop before it returns.
  \<^item> \<open>OutOfRange\<close>: a \<^verbatim>\<open>std::vector\<close> is indexed outside its bounds
    (\<^verbatim>\<open>stage_name[stage]\<close>, \<^verbatim>\<open>beta[stage - 1]\<close>). C++ leaves that read undefined;
    the model stops there, so that no theorem rests on what it would return.
  \<^item> \<open>NotFound name\<close>: a container collection is asked for a name it does not hold.
  \<^item> \<open>NoPackage\<close>, \<open>NoParam\<close>: the block has no package, or the package no
    parameter, of the name asked for.
  \<^item> \<open>RequiredMissing\<close>: a required input parameter is absent.
  \<^item> \<open>External\<close>: a failure raised inside a library routine the driver calls.
\<close>

datatype error =
    OutOfRange
  | NotFound string
  | NoPackage string
  | NoParam string
  | RequiredMissing string string
  | External string

text \<open>Sequencing of steps that may fail: the first failure is the result.\<close>

definition and_then :: "error + 'a \<Rightarrow> ('a \<Rightarrow> error + 'b) \<Rightarrow> error + 'b" where
  "and_then m f = (case m of Inl e \<Rightarrow> Inl e | Inr x \<Rightarrow> f x)"

text \<open>
  \<^verbatim>\<open>v[i]\<close> on a \<^verbatim>\<open>std::vector\<close> with an \<^verbatim>\<open>int\<close> index: the index is converted to
  the unsigned size type, so a negative one is out of range as well.
\<close>

definition at_index :: "'a list \<Rightarrow> int \<Rightarrow> error + 'a" where
  "at_index xs i = (if 0 \<le> i \<and> i < int (length xs) then Inr (xs ! nat i) else Inl OutOfRange)"

text \<open>
  Modelled from the spec: the status a task reports (section 4.6: complete,
  incomplete or failed); the driver's own tasks return \<^verbatim>\<open>TaskStatus::complete\<close>.
\<close>

datatype TaskStatus = complete | incomplete | failed

text \<open>
  Modelled from the spec: the communication scope of the boundary exchange. The
  driver uses the one scope \<^verbatim>\<open>BoundaryCommSubset::all\<close>.
\<close>

datatype BoundaryCommSubset = BoundaryCommSubset_all

text \<open>
  Modelled from the spec: the identity of a task (section 3: a task has
  predecessors, and dependencies may cross lanes through the predecessor
  references captured when tasks are added). \<open>none\<close> is the driver's
  \<^verbatim>\<open>TaskID none(0)\<close>, the empty dependency; \<open>TaskAt r l p\<close> names the task added
  at position \<open>p\<close> of task list \<open>l\<close> of region \<open>r\<close>.
\<close>

datatype TaskID = none | TaskAt nat nat nat

text \<open>
  Modelled from the spec: the integrator descriptor (section 3), of which the
  driver reads \<^verbatim>\<open>nstages\<close>, \<^verbatim>\<open>beta[stage - 1]\<close> and \<^verbatim>\<open>dt\<close>. \<^verbatim>\<open>nstages\<close> is a C++
  \<^verbatim>\<open>int\<close>, compared and never computed with, so an integer here; \<^verbatim>\<open>beta\<close> is a
  vector of scalars.
\<close>

record 'r Integrator =
  nstages :: int
  beta :: "'r list"
  dt :: 'r

text \<open>
  What a task runs, with the arguments \<^verbatim>\<open>AddTask\<close> captures. A container handed
  over as a pointer is named by the index of its block in \<^verbatim>\<open>blocks\<close> and its name
  in that block's collection; the mesh-wide tasks receive \<^verbatim>\<open>blocks\<close> whole and
  carry only the container names. \<open>UpdateContainer_task\<close> is the helper
  \<^verbatim>\<open>UpdateContainer\<close> of this file, \<open>EstimateTimestep_task\<close> the lambda of the
  last stage.
\<close>

datatype 'r TaskFn =
    StartReceiving nat string BoundaryCommSubset
  | CalculateFluxesWScratch nat string int
  | CalculateFluxes nat string int
  | FluxDivergenceMesh string string
  | UpdateContainer_task int "string list" "'r Integrator"
  | SendBoundaryBuffers string
  | ReceiveBoundaryBuffers string
  | SetBoundaries string
  | ClearBoundary nat string BoundaryCommSubset
  | ApplyBoundaryConditions nat string
  | FillDerived nat string
  | EstimateTimestep_task nat string

text \<open>
  Modelled from the spec: a task, the unit of work with its predecessor (section
  3). Every \<^verbatim>\<open>AddTask\<close> of the driver names exactly one predecessor, possibly
  \<open>none\<close>.
\<close>

record 'r Task =
  dependency :: TaskID
  func :: "'r TaskFn"

text \<open>
  Modelled from the spec: a task list is the ordered sequence of the tasks of one
  lane; it knows its place in the collection, from which \<open>AddTask\<close> makes the
  identity of each task it appends. A region is a fixed number of task lists, a
  collection an ordered sequence of regions (section 3).
\<close>

record 'r TaskList =
  region_id :: nat
  list_id :: nat
  tasks :: "'r Task list"

type_synonym 'r TaskRegion = "'r TaskList list"
type_synonym 'r TaskCollection = "'r TaskRegion list"

text \<open>
  Modelled from the spec: a fresh region \<open>r\<close> of \<open>n\<close> task lists, all empty.
\<close>

definition new_region :: "nat \<Rightarrow> nat \<Rightarrow> 'r TaskRegion" where
  "new_region r n = map (\<lambda>l. \<lparr>region_id = r, list_id = l, tasks = []\<rparr>) [0..<n]"

text \<open>
  Modelled from the spec: \<^verbatim>\<open>AddRegion(n)\<close> appends a region of \<open>n\<close> empty task
  lists and hands back a reference to it, here its index in the collection.
\<close>

definition AddRegion :: "'r TaskCollection \<Rightarrow> nat \<Rightarrow> 'r TaskCollection \<times> nat" where
  "AddRegion tc n = (tc @ [new_region (length tc) n], length tc)"

text \<open>
  Modelled from the spec: \<^verbatim>\<open>AddTask(dep, f, args...)\<close> appends the task to the list
  and returns its identity.
\<close>

definition AddTask :: "'r TaskList \<Rightarrow> TaskID \<Rightarrow> 'r TaskFn \<Rightarrow> 'r TaskList \<times> TaskID" where
  "AddTask tl' dep f =
     (tl'\<lparr>tasks := tasks tl' @ [\<lparr>dependency = dep, func = f\<rparr>]\<rparr>,
      TaskAt (region_id tl') (list_id tl') (length (tasks tl')))"

text \<open>
  Modelled from the spec: the task an identity names, when the collection holds
  one there.
\<close>

fun task_at :: "'r TaskCollection \<Rightarrow> TaskID \<Rightarrow> 'r Task option" where
  "task_at tc none = None"
| "task_at tc (TaskAt r l p) =
     (if r < length tc \<and> l < length (tc ! r) \<and> p < length (tasks (tc ! r ! l))
      then Some (tasks (tc ! r ! l) ! p) else None)"

declare task_at.simps [simp del]

section \<open>Blocks and their containers\<close>

text \<open>
  Modelled from the spec: the container collection of a block (section 4.2).
  \<open>Get\<close> fails with \<open>NotFound\<close> when the name is absent. \<open>Add\<close> creates a
  container from an existing one and is a no-op when the name exists already; the
  new container copies the layout, not necessarily the values, of its source,
  which is the parameter \<open>alloc\<close>.
\<close>

type_synonym 'c ContainerCollection = "string \<rightharpoonup> 'c"

definition Get :: "'c ContainerCollection \<Rightarrow> string \<Rightarrow> error + 'c" where
  "Get rc name = (case rc name of None \<Rightarrow> Inl (NotFound name) | Some c \<Rightarrow> Inr c)"

definition Add :: "('c \<Rightarrow> 'c) \<Rightarrow> string \<Rightarrow> 'c \<Rightarrow> 'c ContainerCollection
    \<Rightarrow> 'c ContainerCollection" where
  "Add alloc name src rc = (case rc name of None \<Rightarrow> rc(name \<mapsto> alloc src) | Some c \<Rightarrow> rc)"

text \<open>
  Modelled from the spec: a block (section 3), reduced to what the driver touches
  of it: its container collection \<^verbatim>\<open>real_containers\<close>, the boolean parameters of
  its \<^verbatim>\<open>packages\<close>, and the time step \<^verbatim>\<open>SetBlockTimestep\<close> records.
\<close>

record ('c, 'r) MeshBlock =
  real_containers :: "'c ContainerCollection"
  packages :: "string \<rightharpoonup> (string \<rightharpoonup> bool)"
  block_timestep :: 'r

type_synonym ('c, 'r) BlockList_t = "('c, 'r) MeshBlock list"

text \<open>
  Modelled from the spec: the lookup \<^verbatim>\<open>pmb->packages[pkg]->Param<bool>(key)\<close> of a
  configuration flag (section 6); it stops when the package or the flag is absent.
\<close>

definition Param_bool :: "('c, 'r) MeshBlock \<Rightarrow> string \<Rightarrow> string \<Rightarrow> error + bool" where
  "Param_bool pmb pkg key =
     (case packages pmb pkg of
        None \<Rightarrow> Inl (NoPackage pkg)
      | Some ps \<Rightarrow> (case ps key of None \<Rightarrow> Inl (NoParam key) | Some b \<Rightarrow> Inr b))"

section \<open>The driver (hydro/hydro\_driver.cpp)\<close>

text \<open>
  The members the driver inherits from the multi-stage driver and uses: the
  integrator and the vector \<^verbatim>\<open>stage_name\<close> of the container name of each stage.
  Their declarations are in the library; how the library fills \<^verbatim>\<open>stage_name\<close> is
  not assumed anywhere below.
\<close>

record 'r HydroDriver =
  integrator :: "'r Integrator"
  stage_name :: "string list"

text \<open>
  Modelled from the spec: the parameter input, and its two checks (section 6:
  the absence of a required key is a fatal configuration error, the absence of an
  advisory key a warning only).
\<close>

type_synonym ParameterInput = "string \<times> string \<rightharpoonup> string"

datatype warning = DesiredMissing string string

definition CheckRequired :: "ParameterInput \<Rightarrow> string \<Rightarrow> string \<Rightarrow> error + unit" where
  "CheckRequired pin block name =
     (case pin (block, name) of None \<Rightarrow> Inl (RequiredMissing block name) | Some v \<Rightarrow> Inr ())"

definition CheckDesired :: "ParameterInput \<Rightarrow> string \<Rightarrow> string \<Rightarrow> warning list" where
  "CheckDesired pin block name =
     (case pin (block, name) of None \<Rightarrow> [DesiredMissing block name] | Some v \<Rightarrow> [])"

text \<open>
  The constructor: the base-class constructor \<open>base\<close> runs first (a parameter: it
  is the library's), then the required key is checked, then the desired one. The
  result is the constructed driver with the warnings printed on the way.
\<close>

definition HydroDriver ::
  "(ParameterInput \<Rightarrow> 'a \<Rightarrow> 'm \<Rightarrow> error + 'r HydroDriver) \<Rightarrow> ParameterInput \<Rightarrow> 'a \<Rightarrow> 'm
    \<Rightarrow> error + ('r HydroDriver \<times> warning list)" where
  "HydroDriver base pin app_in pm =
     and_then (base pin app_in pm) (\<lambda>drv.
     and_then (CheckRequired pin ''hydro'' ''eos'') (\<lambda>u.
     Inr (drv, CheckDesired pin ''hydro'' ''cfl'')))"

text \<open>
  Modelled from the spec: the library's container update
  \<^verbatim>\<open>parthenon::Update::UpdateContainer\<close> (section 4.5, step 3b). A container is
  its field values, one scalar per cell. In every block the container written
  becomes, cell by cell, the container read plus the coefficient times the rate
  container; the three containers are looked up in the block, so a block that
  lacks one stops the update.
\<close>

definition update_block ::
  "string \<Rightarrow> string \<Rightarrow> 'r \<Rightarrow> string \<Rightarrow> ('k \<Rightarrow> ('r :: {plus, times}), 'r) MeshBlock
    \<Rightarrow> error + ('k \<Rightarrow> 'r, 'r) MeshBlock" where
  "update_block name_in name_dudt coef name_out pmb =
     and_then (Get (real_containers pmb) name_in) (\<lambda>u.
     and_then (Get (real_containers pmb) name_dudt) (\<lambda>d.
     and_then (Get (real_containers pmb) name_out) (\<lambda>out.
     Inr (pmb\<lparr>real_containers :=
            (real_containers pmb)(name_out \<mapsto> (\<lambda>cell. u cell + coef * d cell))\<rparr>))))"

fun Update_UpdateContainer ::
  "('k \<Rightarrow> ('r :: {plus, times}), 'r) BlockList_t \<Rightarrow> string \<Rightarrow> string \<Rightarrow> 'r \<Rightarrow> string
    \<Rightarrow> error + ('k \<Rightarrow> 'r, 'r) BlockList_t" where
  "Update_UpdateContainer [] name_in name_dudt coef name_out = Inr []"
| "Update_UpdateContainer (pmb # blocks) name_in name_dudt coef name_out =
     and_then (update_block name_in name_dudt coef name_out pmb) (\<lambda>pmb'.
     and_then (Update_UpdateContainer blocks name_in name_dudt coef name_out) (\<lambda>blocks'.
     Inr (pmb' # blocks')))"

text \<open>
  The helper task \<^verbatim>\<open>UpdateContainer\<close>. \<open>upd\<close> is the library's
  \<^verbatim>\<open>parthenon::Update::UpdateContainer\<close>, which receives the blocks, the name of
  the container it reads, the name of the rate container, the coefficient and the
  name of the container it writes. The product \<^verbatim>\<open>beta * dt\<close> is the
  multiplication of the scalar type.
\<close>

definition UpdateContainer ::
  "('b \<Rightarrow> string \<Rightarrow> string \<Rightarrow> 'r \<Rightarrow> string \<Rightarrow> error + 'b) \<Rightarrow> 'b \<Rightarrow> int \<Rightarrow> string list
    \<Rightarrow> ('r :: times) Integrator \<Rightarrow> error + ('b \<times> TaskStatus)" where
  "UpdateContainer upd blocks stage names integ =
     and_then (at_index (beta integ) (stage - 1)) (\<lambda>beta_s.
     let dt_s = dt integ in
     and_then (at_index names (stage - 1)) (\<lambda>name_in.
     and_then (at_index names stage) (\<lambda>name_out.
     and_then (upd blocks name_in ''dUdt'' (beta_s * dt_s) name_out) (\<lambda>blocks'.
     Inr (blocks', complete)))))"

text \<open>
  The lambda of the last stage: \<^verbatim>\<open>pmb->SetBlockTimestep(EstimateTimestep(rc))\<close> on
  the block that owns the container. \<open>est\<close> is the library's
  \<^verbatim>\<open>parthenon::Update::EstimateTimestep\<close>. The container is the one captured when
  the task was added, named here by block index and container name; for every
  task the driver adds, the index is that of an existing block.
\<close>

definition new_dt_lambda ::
  "('c \<Rightarrow> 'r) \<Rightarrow> nat \<Rightarrow> string \<Rightarrow> ('c, 'r) BlockList_t
    \<Rightarrow> error + (('c, 'r) BlockList_t \<times> TaskStatus)" where
  "new_dt_lambda est i name blocks =
     (if i < length blocks then
        and_then (Get (real_containers (blocks ! i)) name) (\<lambda>rc.
        Inr (blocks[i := (blocks ! i)\<lparr>block_timestep := est rc\<rparr>], complete))
      else Inl OutOfRange)"

text \<open>
  Running one task on the blocks. The two tasks this file defines run their
  bodies above; every other task is a library routine, behind the parameter
  \<open>lib\<close>.
\<close>

fun run_task ::
  "('r TaskFn \<Rightarrow> ('c, 'r) BlockList_t \<Rightarrow> error + (('c, 'r) BlockList_t \<times> TaskStatus))
    \<Rightarrow> (('c, 'r) BlockList_t \<Rightarrow> string \<Rightarrow> string \<Rightarrow> 'r \<Rightarrow> string \<Rightarrow> error + ('c, 'r) BlockList_t)
    \<Rightarrow> ('c \<Rightarrow> 'r) \<Rightarrow> ('r :: times) TaskFn \<Rightarrow> ('c, 'r) BlockList_t
    \<Rightarrow> error + (('c, 'r) BlockList_t \<times> TaskStatus)" where
  "run_task lib upd est (UpdateContainer_task stage names integ) blocks =
     UpdateContainer upd blocks stage names integ"
| "run_task lib upd est (EstimateTimestep_task i name) blocks = new_dt_lambda est i name blocks"
| "run_task lib upd est f blocks = lib f blocks"

text \<open>
  The loop \<^verbatim>\<open>for (int i = 1; i < integrator->nstages; i++)\<close> that adds the stage
  containers, from the loop variable's current value onwards.
\<close>

function add_stage_containers ::
  "('c \<Rightarrow> 'c) \<Rightarrow> string list \<Rightarrow> int \<Rightarrow> 'c \<Rightarrow> int \<Rightarrow> 'c ContainerCollection
    \<Rightarrow> error + 'c ContainerCollection" where
  "add_stage_containers alloc names n base i rc =
     (if i < n then
        and_then (at_index names i) (\<lambda>name.
        add_stage_containers alloc names n base (i + 1) (Add alloc name base rc))
      else Inr rc)"
  by pat_completeness auto
termination
  by (relation "measure (\<lambda>(alloc, names, n, base, i, rc). nat (n - i))") auto

declare add_stage_containers.simps [simp del]

text \<open>
  The body of the first loop over the blocks, for block \<open>i\<close> and its task list:
  the containers of the first stage, the three containers pulled out, and the two
  tasks of Region A. \<^verbatim>\<open>real_containers.Get()\<close> without a name is the base
  container.
\<close>

definition region1_body ::
  "'r HydroDriver \<Rightarrow> ('c \<Rightarrow> 'c) \<Rightarrow> int \<Rightarrow> nat \<Rightarrow> ('c, 'r) MeshBlock \<Rightarrow> 'r TaskList
    \<Rightarrow> error + (('c, 'r) MeshBlock \<times> 'r TaskList)" where
  "region1_body drv alloc stage i pmb tl' =
     and_then
       (if stage = 1 then
          and_then (Get (real_containers pmb) ''base'') (\<lambda>base.
          add_stage_containers alloc (stage_name drv) (nstages (integrator drv)) base 1
            (Add alloc ''dUdt'' base (real_containers pmb)))
        else Inr (real_containers pmb)) (\<lambda>rc.
     and_then (at_index (stage_name drv) (stage - 1)) (\<lambda>name0.
     and_then (Get rc name0) (\<lambda>sc0.
     and_then (Get rc ''dUdt'') (\<lambda>dudt.
     and_then (at_index (stage_name drv) stage) (\<lambda>name1.
     and_then (Get rc name1) (\<lambda>sc1.
     let (tl', start_recv) = AddTask tl' none (StartReceiving i name1 BoundaryCommSubset_all) in
     and_then (Param_bool pmb ''Hydro'' ''use_scratch'') (\<lambda>use_scratch.
     let (tl', advect_flux) =
           (if use_scratch then AddTask tl' none (CalculateFluxesWScratch i name0 stage)
            else AddTask tl' none (CalculateFluxes i name0 stage)) in
     Inr (pmb\<lparr>real_containers := rc\<rparr>, tl'))))))))"

text \<open>
  The first loop, \<^verbatim>\<open>for (int i = 0; i < blocks.size(); i++)\<close>, from \<open>i\<close> onwards.
  The region was created with one list per block, so \<^verbatim>\<open>async_region1[i]\<close> exists
  for every \<open>i\<close> the loop reaches; the number of blocks is taken to fit the \<^verbatim>\<open>int\<close>
  counter. A failure in the body ends the call, as the exception would.
\<close>

function region1_loop ::
  "'r HydroDriver \<Rightarrow> ('c \<Rightarrow> 'c) \<Rightarrow> int \<Rightarrow> nat \<Rightarrow> ('c, 'r) BlockList_t \<Rightarrow> 'r TaskRegion
    \<Rightarrow> error + (('c, 'r) BlockList_t \<times> 'r TaskRegion)" where
  "region1_loop drv alloc stage i blocks region =
     (if i < length blocks then
        and_then (region1_body drv alloc stage i (blocks ! i) (region ! i)) (\<lambda>(pmb, tl').
        region1_loop drv alloc stage (i + 1) (blocks[i := pmb]) (region[i := tl']))
      else Inr (blocks, region))"
  by pat_completeness auto
termination
  by (relation "measure (\<lambda>(drv, alloc, stage, i, blocks, region). length blocks - i)") auto

declare region1_loop.simps [simp del]

text \<open>
  The block between the loops: the five tasks of the single task list of Region B.
  The second component of the result is \<^verbatim>\<open>fill_from_bufs\<close>, which the second loop
  names.
\<close>

definition region2_body ::
  "'r HydroDriver \<Rightarrow> int \<Rightarrow> 'r TaskList \<Rightarrow> error + ('r TaskList \<times> TaskID)" where
  "region2_body drv stage tl' =
     and_then (at_index (stage_name drv) (stage - 1)) (\<lambda>name0.
     let (tl', flux_div) = AddTask tl' none (FluxDivergenceMesh name0 ''dUdt'');
         (tl', update_container) =
            AddTask tl' flux_div (UpdateContainer_task stage (stage_name drv) (integrator drv)) in
     and_then (at_index (stage_name drv) stage) (\<lambda>name1.
     let (tl', send) = AddTask tl' update_container (SendBoundaryBuffers name1);
         (tl', recv) = AddTask tl' send (ReceiveBoundaryBuffers name1);
         (tl', fill_from_bufs) = AddTask tl' recv (SetBoundaries name1) in
     Inr (tl', fill_from_bufs)))"

text \<open>The body of the second loop over the blocks: the tasks of Region C for block \<open>i\<close>.\<close>

definition region3_body ::
  "'r HydroDriver \<Rightarrow> int \<Rightarrow> TaskID \<Rightarrow> nat \<Rightarrow> ('c, 'r) MeshBlock \<Rightarrow> 'r TaskList
    \<Rightarrow> error + 'r TaskList" where
  "region3_body drv stage fill_from_bufs i pmb tl' =
     and_then (at_index (stage_name drv) stage) (\<lambda>name1.
     and_then (Get (real_containers pmb) name1) (\<lambda>sc1.
     let (tl', clear_comm_flags) = AddTask tl' none (ClearBoundary i name1 BoundaryCommSubset_all);
         (tl', set_bc) = AddTask tl' fill_from_bufs (ApplyBoundaryConditions i name1);
         (tl', fill_derived) = AddTask tl' set_bc (FillDerived i name1) in
     if stage = nstages (integrator drv) then
       let (tl', new_dt) = AddTask tl' fill_derived (EstimateTimestep_task i name1) in Inr tl'
     else Inr tl'))"

text \<open>The second loop over the blocks, from \<open>i\<close> onwards.\<close>

function region3_loop ::
  "'r HydroDriver \<Rightarrow> int \<Rightarrow> TaskID \<Rightarrow> nat \<Rightarrow> ('c, 'r) BlockList_t \<Rightarrow> 'r TaskRegion
    \<Rightarrow> error + 'r TaskRegion" where
  "region3_loop drv stage fill_from_bufs i blocks region =
     (if i < length blocks then
        and_then (region3_body drv stage fill_from_bufs i (blocks ! i) (region ! i)) (\<lambda>tl'.
        region3_loop drv stage fill_from_bufs (i + 1) blocks (region[i := tl']))
      else Inr region)"
  by pat_completeness auto
termination
  by (relation "measure (\<lambda>(drv, stage, f, i, blocks, region). length blocks - i)") auto

declare region3_loop.simps [simp del]

text \<open>
  \<^verbatim>\<open>MakeTaskCollection\<close>. The blocks are handed over by reference and the first
  loop adds containers to them, so the result holds the blocks as the call leaves
  them beside the task collection. The name \<^verbatim>\<open>fill_from_bufs\<close> in the second loop
  is read as the task of that name added to the list of Region B.
\<close>

definition MakeTaskCollection ::
  "'r HydroDriver \<Rightarrow> ('c \<Rightarrow> 'c) \<Rightarrow> ('c, 'r) BlockList_t \<Rightarrow> int
    \<Rightarrow> error + (('c, 'r) BlockList_t \<times> 'r TaskCollection)" where
  "MakeTaskCollection drv alloc blocks stage =
     (let tc = [];
          num_task_lists_executed_independently = length blocks;
          (tc, r1) = AddRegion tc num_task_lists_executed_independently in
      and_then (region1_loop drv alloc stage 0 blocks (tc ! r1)) (\<lambda>(blocks, async_region1).
      let tc = tc[r1 := async_region1];
          (tc, r2) = AddRegion tc 1 in
      and_then (region2_body drv stage (tc ! r2 ! 0)) (\<lambda>(tl', fill_from_bufs).
      let tc = tc[r2 := (tc ! r2)[0 := tl']];
          (tc, r3) = AddRegion tc num_task_lists_executed_independently in
      and_then (region3_loop drv stage fill_from_bufs 0 blocks (tc ! r3)) (\<lambda>async_region2.
      let tc = tc[r3 := async_region2] in
      Inr (blocks, tc)))))"

section \<open>When the call returns\<close>

text \<open>
  A name is held by the block once the first stage has made its additions: the
  block held it already, or it is \<open>dUdt\<close>, or it is one of \<open>stage_name[1]\<close> to
  \<open>stage_name[nstages - 1]\<close>.
\<close>

definition held_after_adds :: "'r HydroDriver \<Rightarrow> ('c, 'r) MeshBlock \<Rightarrow> string \<Rightarrow> bool" where
  "held_after_adds drv pmb name \<longleftrightarrow>
     real_containers pmb name \<noteq> None \<or> name = ''dUdt''
     \<or> name \<in> (\<lambda>j. stage_name drv ! nat j) ` {1..<nstages (integrator drv)}"

text \<open>
  What \<^verbatim>\<open>MakeTaskCollection\<close> needs of one block in order to return: the package
  \<open>Hydro\<close> with its flag \<open>use_scratch\<close>, and the three containers the first loop
  pulls out. At stage 1 those are looked up after the additions, which need the
  base container and the stage names up to \<open>nstages - 1\<close>; at any other stage they
  must be in the block already.
\<close>

definition block_ready :: "'r HydroDriver \<Rightarrow> int \<Rightarrow> ('c, 'r) MeshBlock \<Rightarrow> bool" where
  "block_ready drv stage pmb \<longleftrightarrow>
     (case packages pmb ''Hydro'' of None \<Rightarrow> False | Some ps \<Rightarrow> ps ''use_scratch'' \<noteq> None)
   \<and> (if stage = 1 then
          real_containers pmb ''base'' \<noteq> None
        \<and> nstages (integrator drv) \<le> int (length (stage_name drv))
        \<and> held_after_adds drv pmb (stage_name drv ! nat (stage - 1))
        \<and> held_after_adds drv pmb (stage_name drv ! nat stage)
        else
          real_containers pmb (stage_name drv ! nat (stage - 1)) \<noteq> None
        \<and> real_containers pmb ''dUdt'' \<noteq> None
        \<and> real_containers pmb (stage_name drv ! nat stage) \<noteq> None)"

text \<open>
  The precondition of the call: a stage with both \<open>stage_name[stage - 1]\<close> and
  \<open>stage_name[stage]\<close> in range, and every block ready. The call returns a task
  collection exactly under it (lemma \<open>MakeTaskCollection_returns_iff\<close> below);
  otherwise it stops in one of the errors above.
\<close>

definition ready :: "'r HydroDriver \<Rightarrow> ('c, 'r) BlockList_t \<Rightarrow> int \<Rightarrow> bool" where
  "ready drv blocks stage \<longleftrightarrow>
     1 \<le> stage \<and> stage < int (length (stage_name drv))
   \<and> (\<forall>pmb \<in> set blocks. block_ready drv stage pmb)"

section \<open>The executor\<close>

text \<open>
  Modelled from the spec: the task executor (sections 4.6 and 5), which is not
  part of this repository's files. A task is pending, running, or finished with
  the status it reported. The executor works on one region at a time.
  \<^item> It may start a task of the current region that is pending, or that finished
    incomplete and is retried, once the task's predecessor is complete, unless a
    task of the same list has failed (a failed task aborts the rest of its list).
    No order is imposed between the lists of a region.
  \<^item> A running task finishes with any status.
  \<^item> Once every task of every list of the current region is complete, and only
    then, the executor moves to the next region.
\<close>

text \<open>Modelled from the spec: where a task stands (section 4.6).\<close>

datatype Progress = pending | running | finished TaskStatus

text \<open>
  Modelled from the spec: the state of the executor, the region it is working on
  and where every task stands.
\<close>

record ExecState =
  current_region :: nat
  progress :: "TaskID \<Rightarrow> Progress"

text \<open>Modelled from the spec: at the start every task is pending.\<close>

definition initial :: ExecState where
  "initial = \<lparr>current_region = 0, progress = (\<lambda>t. pending)\<rparr>"

text \<open>Modelled from the spec: the identity names a task of region \<open>r\<close>.\<close>

fun in_region :: "'r TaskCollection \<Rightarrow> nat \<Rightarrow> TaskID \<Rightarrow> bool" where
  "in_region tc r none = False"
| "in_region tc r (TaskAt r' l p) =
     (r' = r \<and> r < length tc \<and> l < length (tc ! r) \<and> p < length (tasks (tc ! r ! l)))"

text \<open>
  Modelled from the spec: a task must not execute until its predecessor has
  completed (section 3).
\<close>

definition predecessor_complete :: "'r TaskCollection \<Rightarrow> ExecState \<Rightarrow> TaskID \<Rightarrow> bool" where
  "predecessor_complete tc s t =
     (case task_at tc t of
        None \<Rightarrow> False
      | Some task \<Rightarrow>
          dependency task = none \<or> progress s (dependency task) = finished complete)"

text \<open>
  Modelled from the spec: a failed task aborts the remaining tasks of its list
  (section 4.6).
\<close>

definition list_failed :: "'r TaskCollection \<Rightarrow> ExecState \<Rightarrow> nat \<Rightarrow> nat \<Rightarrow> bool" where
  "list_failed tc s r l =
     (\<exists>p<length (tasks (tc ! r ! l)). progress s (TaskAt r l p) = finished failed)"

text \<open>
  Modelled from the spec: a region is done only when every task of every one of
  its lists is complete (section 4.6).
\<close>

definition region_done :: "'r TaskCollection \<Rightarrow> ExecState \<Rightarrow> nat \<Rightarrow> bool" where
  "region_done tc s r =
     (\<forall>l<length (tc ! r). \<forall>p<length (tasks (tc ! r ! l)).
        progress s (TaskAt r l p) = finished complete)"

text \<open>Modelled from the spec: one step of the executor (section 4.6).\<close>

inductive exec_step :: "'r TaskCollection \<Rightarrow> ExecState \<Rightarrow> ExecState \<Rightarrow> bool"
  for tc :: "'r TaskCollection" where
  start:
    "in_region tc (current_region s) (TaskAt r l p) \<Longrightarrow>
     progress s (TaskAt r l p) = pending \<or> progress s (TaskAt r l p) = finished incomplete \<Longrightarrow>
     predecessor_complete tc s (TaskAt r l p) \<Longrightarrow>
     \<not> list_failed tc s r l \<Longrightarrow>
     exec_step tc s (s\<lparr>progress := (progress s)(TaskAt r l p := running)\<rparr>)"
| finish:
    "progress s t = running \<Longrightarrow>
     exec_step tc s (s\<lparr>progress := (progress s)(t := finished result)\<rparr>)"
| next_region:
    "current_region s < length tc \<Longrightarrow>
     region_done tc s (current_region s) \<Longrightarrow>
     exec_step tc s (s\<lparr>current_region := Suc (current_region s)\<rparr>)"

text \<open>Modelled from the spec: the states an execution can pass through.\<close>

inductive reachable :: "'r TaskCollection \<Rightarrow> ExecState \<Rightarrow> bool"
  for tc :: "'r TaskCollection" where
  at_start: "reachable tc initial"
| after_step: "reachable tc s \<Longrightarrow> exec_step tc s s' \<Longrightarrow> reachable tc s'"

text \<open>
  The executor state in which the current region is \<open>k\<close>, the tasks of \<open>ts\<close> are
  complete and every other task is pending.
\<close>

definition completed :: "TaskID list \<Rightarrow> nat \<Rightarrow> ExecState" where
  "completed ts k =
     \<lparr>current_region = k,
      progress = (\<lambda>t. if t \<in> set ts then finished complete else pending)\<rparr>"

text \<open>
  The invariant behind the barrier: every task of a region before the current one
  is complete, every task of a region after it is still pending.
\<close>

definition barrier_inv :: "'r TaskCollection \<Rightarrow> ExecState \<Rightarrow> bool" where
  "barrier_inv tc s \<longleftrightarrow>
     (\<forall>r t. in_region tc r t \<and> r < current_region s \<longrightarrow> progress s t = finished complete)
   \<and> (\<forall>r t. in_region tc r t \<and> current_region s < r \<longrightarrow> progress s t = pending)"

section \<open>A worked example\<close>

text \<open>
  A two-stage integrator with \<open>beta = [1, 1/2]\<close> and \<open>dt = 1/10\<close>, the stage names
  as the multi-stage driver sets them (the last stage writes the base container),
  and one block holding only a uniform base container of value 1. A container
  maps a cell number to its value, and a copy made by \<open>Add\<close> has the same cells,
  all zero (\<open>ex_alloc\<close>). \<open>ex_block1\<close> is the block after the first stage has
  added its containers; \<open>ex_tc1\<close> and \<open>ex_tc2\<close> are the task collections of the
  first and of the second stage.
\<close>

definition ex_drv :: "real HydroDriver" where
  "ex_drv = \<lparr>integrator = \<lparr>nstages = 2, beta = [1, 1/2], dt = 1/10\<rparr>,
             stage_name = [''base'', ''1'', ''base'']\<rparr>"

definition ex_alloc :: "(nat \<Rightarrow> real) \<Rightarrow> nat \<Rightarrow> real" where
  "ex_alloc src = (\<lambda>cell. 0)"

definition ex_block :: "(nat \<Rightarrow> real, real) MeshBlock" where
  "ex_block = \<lparr>real_containers = [''base'' \<mapsto> (\<lambda>cell. 1)],
               packages = [''Hydro'' \<mapsto> [''use_scratch'' \<mapsto> False]],
               block_timestep = 0\<rparr>"

definition ex_block1 :: "(nat \<Rightarrow> real, real) MeshBlock" where
  "ex_block1 = \<lparr>real_containers =
                 [''base'' \<mapsto> (\<lambda>cell. 1), ''dUdt'' \<mapsto> (\<lambda>cell. 0), ''1'' \<mapsto> (\<lambda>cell. 0)],
               packages = [''Hydro'' \<mapsto> [''use_scratch'' \<mapsto> False]],
               block_timestep = 0\<rparr>"

definition ex_tc1 :: "real TaskCollection" where
  "ex_tc1 =
     [[\<lparr>region_id = 0, list_id = 0, tasks =
         [\<lparr>dependency = none, func = StartReceiving 0 ''1'' BoundaryCommSubset_all\<rparr>,
          \<lparr>dependency = none, func = CalculateFluxes 0 ''base'' 1\<rparr>]\<rparr>],
      [\<lparr>region_id = 1, list_id = 0, tasks =
         [\<lparr>dependency = none, func = FluxDivergenceMesh ''base'' ''dUdt''\<rparr>,
          \<lparr>dependency = TaskAt 1 0 0,
           func = UpdateContainer_task 1 (stage_name ex_drv) (integrator ex_drv)\<rparr>,
          \<lparr>dependency = TaskAt 1 0 1, func = SendBoundaryBuffers ''1''\<rparr>,
          \<lparr>dependency = TaskAt 1 0 2, func = ReceiveBoundaryBuffers ''1''\<rparr>,
          \<lparr>dependency = TaskAt 1 0 3, func = SetBoundaries ''1''\<rparr>]\<rparr>],
      [\<lparr>region_id = 2, list_id = 0, tasks =
         [\<lparr>dependency = none, func = ClearBoundary 0 ''1'' BoundaryCommSubset_all\<rparr>,
          \<lparr>dependency = TaskAt 1 0 4, func = ApplyBoundaryConditions 0 ''1''\<rparr>,
          \<lparr>dependency = TaskAt 2 0 1, func = FillDerived 0 ''1''\<rparr>]\<rparr>]]"

definition ex_tc2 :: "real TaskCollection" where
  "ex_tc2 =
     [[\<lparr>region_id = 0, list_id = 0, tasks =
         [\<lparr>dependency = none, func = StartReceiving 0 ''base'' BoundaryCommSubset_all\<rparr>,
          \<lparr>dependency = none, func = CalculateFluxes 0 ''1'' 2\<rparr>]\<rparr>],
      [\<lparr>region_id = 1, list_id = 0, tasks =
         [\<lparr>dependency = none, func = FluxDivergenceMesh ''1'' ''dUdt''\<rparr>,
          \<lparr>dependency = TaskAt 1 0 0,
           func = UpdateContainer_task 2 (stage_name ex_drv) (integrator ex_drv)\<rparr>,
          \<lparr>dependency = TaskAt 1 0 1, func = SendBoundaryBuffers ''base''\<rparr>,
          \<lparr>dependency = TaskAt 1 0 2, func = ReceiveBoundaryBuffers ''base''\<rparr>,
          \<lparr>dependency = TaskAt 1 0 3, func = SetBoundaries ''base''\<rparr>]\<rparr>],
      [\<lparr>region_id = 2, list_id = 0, tasks =
         [\<lparr>dependency = none, func = ClearBoundary 0 ''base'' BoundaryCommSubset_all\<rparr>,
          \<lparr>dependency = TaskAt 1 0 4, func = ApplyBoundaryConditions 0 ''base''\<rparr>,
          \<lparr>dependency = TaskAt 2 0 1, func = FillDerived 0 ''base''\<rparr>,
          \<lparr>dependency = TaskAt 2 0 2, func = EstimateTimestep_task 0 ''base''\<rparr>]\<rparr>]]"

text \<open>
  A second mesh, of two blocks, under a three-stage integrator whose stage names
  are \<open>base\<close>, \<open>1\<close>, \<open>2\<close>, \<open>base\<close>. The second block has the base value 2 and
  computes its fluxes with scratch memory. \<open>ex3_mesh1\<close> is the mesh after the
  first stage has added \<open>dUdt\<close>, \<open>1\<close> and \<open>2\<close> to both blocks; \<open>ex3_tc1\<close> is the
  task collection of the first stage.
\<close>

definition ex3_drv :: "real HydroDriver" where
  "ex3_drv = \<lparr>integrator = \<lparr>nstages = 3, beta = [1, 1/4, 2/3], dt = 1/10\<rparr>,
              stage_name = [''base'', ''1'', ''2'', ''base'']\<rparr>"

definition ex_block_s :: "(nat \<Rightarrow> real, real) MeshBlock" where
  "ex_block_s = \<lparr>real_containers = [''base'' \<mapsto> (\<lambda>cell. 2)],
                 packages = [''Hydro'' \<mapsto> [''use_scratch'' \<mapsto> True]],
                 block_timestep = 0\<rparr>"

definition ex3_mesh :: "(nat \<Rightarrow> real, real) BlockList_t" where
  "ex3_mesh = [ex_block, ex_block_s]"

definition ex3_mesh1 :: "(nat \<Rightarrow> real, real) BlockList_t" where
  "ex3_mesh1 =
     [\<lparr>real_containers =
         [''base'' \<mapsto> (\<lambda>cell. 1), ''dUdt'' \<mapsto> (\<lambda>cell. 0), ''1'' \<mapsto> (\<lambda>cell. 0),
          ''2'' \<mapsto> (\<lambda>cell. 0)],
       packages = [''Hydro'' \<mapsto> [''use_scratch'' \<mapsto> False]],
       block_timestep = 0\<rparr>,
      \<lparr>real_containers =
         [''base'' \<mapsto> (\<lambda>cell. 2), ''dUdt'' \<mapsto> (\<lambda>cell. 0), ''1'' \<mapsto> (\<lambda>cell. 0),
          ''2'' \<mapsto> (\<lambda>cell. 0)],
       packages = [''Hydro'' \<mapsto> [''use_scratch'' \<mapsto> True]],
       block_timestep = 0\<rparr>]"

definition ex3_tc1 :: "real TaskCollection" where
  "ex3_tc1 =
     [[\<lparr>region_id = 0, list_id = 0, tasks =
         [\<lparr>dependency = none, func = StartReceiving 0 ''1'' BoundaryCommSubset_all\<rparr>,
          \<lparr>dependency = none, func = CalculateFluxes 0 ''base'' 1\<rparr>]\<rparr>,
       \<lparr>region_id = 0, list_id = 1, tasks =
         [\<lparr>dependency = none, func = StartReceiving 1 ''1'' BoundaryCommSubset_all\<rparr>,
          \<lparr>dependency = none, func = CalculateFluxesWScratch 1 ''base'' 1\<rparr>]\<rparr>],
      [\<lparr>region_id = 1, list_id = 0, tasks =
         [\<lparr>dependency = none, func = FluxDivergenceMesh ''base'' ''dUdt''\<rparr>,
          \<lparr>dependency = TaskAt 1 0 0,
           func = UpdateContainer_task 1 (stage_name ex3_drv) (integrator ex3_drv)\<rparr>,
          \<lparr>dependency = TaskAt 1 0 1, func = SendBoundaryBuffers ''1''\<rparr>,
          \<lparr>dependency = TaskAt 1 0 2, func = ReceiveBoundaryBuffers ''1''\<rparr>,
          \<lparr>dependency = TaskAt 1 0 3, func = SetBoundaries ''1''\<rparr>]\<rparr>],
      [\<lparr>region_id = 2, list_id = 0, tasks =
         [\<lparr>dependency = none, func = ClearBoundary 0 ''1'' BoundaryCommSubset_all\<rparr>,
          \<lparr>dependency = TaskAt 1 0 4, func = ApplyBoundaryConditions 0 ''1''\<rparr>,
          \<lparr>dependency = TaskAt 2 0 1, func = FillDerived 0 ''1''\<rparr>]\<rparr>,
       \<lparr>region_id = 2, list_id = 1, tasks =
         [\<lparr>dependency = none, func = ClearBoundary 1 ''1'' BoundaryCommSubset_all\<rparr>,
          \<lparr>dependency = TaskAt 1 0 4, func = ApplyBoundaryConditions 1 ''1''\<rparr>,
          \<lparr>dependency = TaskAt 2 1 1, func = FillDerived 1 ''1''\<rparr>]\<rparr>]]"

section \<open>How the driver's loops and bodies unfold\<close>

lemma and_then_Inr: "and_then m f = Inr y \<longleftrightarrow> (\<exists>x. m = Inr x \<and> f x = Inr y)"
  by (cases m) (simp_all add: and_then_def)

lemma at_index_Inr: "at_index xs i = Inr x \<longleftrightarrow> 0 \<le> i \<and> i < int (length xs) \<and> x = xs ! nat i"
  by (auto simp: at_index_def)

lemma Get_Inr: "Get rc name = Inr c \<longleftrightarrow> rc name = Some c"
  by (simp add: Get_def split: option.splits)

lemma Add_apply:
  "Add alloc name src rc nm =
     (if nm = name then (case rc name of None \<Rightarrow> Some (alloc src) | Some c \<Rightarrow> Some c) else rc nm)"
  by (simp add: Add_def split: option.splits)

lemma and_then_InrE:
  assumes "and_then m f = Inr y"
  obtains x where "m = Inr x" and "f x = Inr y"
  using assms by (auto simp: and_then_Inr)

lemma add_stage_containers_Inr:
  assumes "add_stage_containers alloc names n base i rc = Inr rc'" and "0 \<le> i"
  shows "(i < n \<longrightarrow> n \<le> int (length names))
    \<and> (\<forall>nm. rc' nm = (case rc nm of Some c \<Rightarrow> Some c
                | None \<Rightarrow> if nm \<in> (\<lambda>j. names ! nat j) ` {i..<n} then Some (alloc base) else None))"
  using assms
proof (induction alloc names n base i rc rule: add_stage_containers.induct)
  case (1 alloc names n base i rc)
  show ?case
  proof (cases "i < n")
    case False
    with "1.prems" show ?thesis
      by (simp add: add_stage_containers.simps split: option.splits)
  next
    case True
    from "1.prems"(1) True obtain name where
      name: "at_index names i = Inr name" and
      rest: "add_stage_containers alloc names n base (i + 1) (Add alloc name base rc) = Inr rc'"
      by (subst (asm) add_stage_containers.simps) (auto simp: and_then_Inr)
    from name have i_lt: "i < int (length names)" and name_eq: "name = names ! nat i"
      by (simp_all add: at_index_Inr)
    from "1.IH" [OF True rest] "1.prems"(2)
    have IH1: "i + 1 < n \<longrightarrow> n \<le> int (length names)"
      and IH2: "\<And>nm. rc' nm = (case Add alloc name base rc nm of Some c \<Rightarrow> Some c
          | None \<Rightarrow> if nm \<in> (\<lambda>j. names ! nat j) ` {i + 1..<n} then Some (alloc base) else None)"
      by simp_all
    have len: "n \<le> int (length names)"
      using IH1 i_lt True by linarith
    have split: "{i..<n} = insert i {i + 1..<n}"
      using True by auto
    have "rc' nm = (case rc nm of Some c \<Rightarrow> Some c
        | None \<Rightarrow> if nm \<in> (\<lambda>j. names ! nat j) ` {i..<n} then Some (alloc base) else None)" for nm
      unfolding IH2 split
      by (simp add: Add_apply name_eq split: option.splits)
    with len show ?thesis by simp
  qed
qed

lemma region1_body_Inr:
  assumes "region1_body drv alloc stage i pmb tl' = Inr (pmb', tl2)"
  shows "1 \<le> stage"
    and "stage < int (length (stage_name drv))"
    and "pmb' = pmb\<lparr>real_containers := real_containers pmb'\<rparr>"
    and "if stage = 1 then
           \<exists>base. real_containers pmb ''base'' = Some base
             \<and> add_stage_containers alloc (stage_name drv) (nstages (integrator drv)) base 1
                  (Add alloc ''dUdt'' base (real_containers pmb)) = Inr (real_containers pmb')
         else real_containers pmb' = real_containers pmb"
    and "real_containers pmb' (stage_name drv ! nat (stage - 1)) \<noteq> None"
    and "real_containers pmb' ''dUdt'' \<noteq> None"
    and "real_containers pmb' (stage_name drv ! nat stage) \<noteq> None"
    and "\<exists>flag. Param_bool pmb ''Hydro'' ''use_scratch'' = Inr flag
      \<and> tl2 = tl'\<lparr>tasks := tasks tl' @
          [\<lparr>dependency = none,
            func = StartReceiving i (stage_name drv ! nat stage) BoundaryCommSubset_all\<rparr>,
           \<lparr>dependency = none,
            func = (if flag
                    then CalculateFluxesWScratch i (stage_name drv ! nat (stage - 1)) stage
                    else CalculateFluxes i (stage_name drv ! nat (stage - 1)) stage)\<rparr>]\<rparr>"
proof -
  note d = assms [unfolded region1_body_def]
  from d obtain rc where
    rc: "(if stage = 1 then
            and_then (Get (real_containers pmb) ''base'') (\<lambda>base.
            add_stage_containers alloc (stage_name drv) (nstages (integrator drv)) base 1
              (Add alloc ''dUdt'' base (real_containers pmb)))
          else Inr (real_containers pmb)) = Inr rc"
    by (rule and_then_InrE)
  from d rc obtain name0 where n0: "at_index (stage_name drv) (stage - 1) = Inr name0"
    by (auto simp: and_then_Inr)
  from d rc n0 obtain sc0 where g0: "Get rc name0 = Inr sc0"
    by (auto simp: and_then_Inr)
  from d rc n0 g0 obtain dudt where gd: "Get rc ''dUdt'' = Inr dudt"
    by (auto simp: and_then_Inr)
  from d rc n0 g0 gd obtain name1 where n1: "at_index (stage_name drv) stage = Inr name1"
    by (auto simp: and_then_Inr)
  from d rc n0 g0 gd n1 obtain sc1 where g1: "Get rc name1 = Inr sc1"
    by (auto simp: and_then_Inr)
  from d rc n0 g0 gd n1 g1 obtain flag where
    fl: "Param_bool pmb ''Hydro'' ''use_scratch'' = Inr flag"
    by (auto simp: and_then_Inr AddTask_def)
  from d rc n0 g0 gd n1 g1 fl have
    res: "pmb' = pmb\<lparr>real_containers := rc\<rparr>"
      "tl2 = tl'\<lparr>tasks := tasks tl' @
        [\<lparr>dependency = none, func = StartReceiving i name1 BoundaryCommSubset_all\<rparr>,
         \<lparr>dependency = none,
          func = (if flag then CalculateFluxesWScratch i name0 stage
                  else CalculateFluxes i name0 stage)\<rparr>]\<rparr>"
    by (cases flag; simp add: and_then_def AddTask_def)+
  from res(1) have rc_eq: "rc = real_containers pmb'"
    by simp
  from n0 n1 have names: "name0 = stage_name drv ! nat (stage - 1)"
      "name1 = stage_name drv ! nat stage"
    by (simp_all add: at_index_Inr)
  show "1 \<le> stage" using n0 by (simp add: at_index_Inr)
  show "stage < int (length (stage_name drv))" using n1 by (simp add: at_index_Inr)
  show "pmb' = pmb\<lparr>real_containers := real_containers pmb'\<rparr>"
    using res(1) by simp
  show "if stage = 1 then
           \<exists>base. real_containers pmb ''base'' = Some base
             \<and> add_stage_containers alloc (stage_name drv) (nstages (integrator drv)) base 1
                  (Add alloc ''dUdt'' base (real_containers pmb)) = Inr (real_containers pmb')
         else real_containers pmb' = real_containers pmb"
    using rc unfolding rc_eq by (simp add: and_then_Inr Get_Inr split: if_splits)
  show "real_containers pmb' (stage_name drv ! nat (stage - 1)) \<noteq> None"
    using g0 unfolding rc_eq names by (simp add: Get_Inr)
  show "real_containers pmb' ''dUdt'' \<noteq> None"
    using gd unfolding rc_eq by (simp add: Get_Inr)
  show "real_containers pmb' (stage_name drv ! nat stage) \<noteq> None"
    using g1 unfolding rc_eq names by (simp add: Get_Inr)
  show "\<exists>flag. Param_bool pmb ''Hydro'' ''use_scratch'' = Inr flag
      \<and> tl2 = tl'\<lparr>tasks := tasks tl' @
          [\<lparr>dependency = none,
            func = StartReceiving i (stage_name drv ! nat stage) BoundaryCommSubset_all\<rparr>,
           \<lparr>dependency = none,
            func = (if flag
                    then CalculateFluxesWScratch i (stage_name drv ! nat (stage - 1)) stage
                    else CalculateFluxes i (stage_name drv ! nat (stage - 1)) stage)\<rparr>]\<rparr>"
    using fl res(2) unfolding names by (intro exI [of _ flag] conjI)
qed

lemma region2_body_Inr:
  assumes "region2_body drv stage tl' = Inr (tl2, f)"
  shows "1 \<le> stage"
    and "stage < int (length (stage_name drv))"
    and "tl2 = tl'\<lparr>tasks := tasks tl' @
        [\<lparr>dependency = none,
          func = FluxDivergenceMesh (stage_name drv ! nat (stage - 1)) ''dUdt''\<rparr>,
         \<lparr>dependency = TaskAt (region_id tl') (list_id tl') (length (tasks tl')),
          func = UpdateContainer_task stage (stage_name drv) (integrator drv)\<rparr>,
         \<lparr>dependency = TaskAt (region_id tl') (list_id tl') (length (tasks tl') + 1),
          func = SendBoundaryBuffers (stage_name drv ! nat stage)\<rparr>,
         \<lparr>dependency = TaskAt (region_id tl') (list_id tl') (length (tasks tl') + 2),
          func = ReceiveBoundaryBuffers (stage_name drv ! nat stage)\<rparr>,
         \<lparr>dependency = TaskAt (region_id tl') (list_id tl') (length (tasks tl') + 3),
          func = SetBoundaries (stage_name drv ! nat stage)\<rparr>]\<rparr>"
    and "f = TaskAt (region_id tl') (list_id tl') (length (tasks tl') + 4)"
  using assms
  by (auto simp: region2_body_def and_then_Inr at_index_Inr AddTask_def Let_def)

lemma region3_body_Inr:
  assumes "region3_body drv stage f i pmb tl' = Inr tl3"
  shows "real_containers pmb (stage_name drv ! nat stage) \<noteq> None"
    and "tl3 = tl'\<lparr>tasks := tasks tl' @
        [\<lparr>dependency = none,
          func = ClearBoundary i (stage_name drv ! nat stage) BoundaryCommSubset_all\<rparr>,
         \<lparr>dependency = f, func = ApplyBoundaryConditions i (stage_name drv ! nat stage)\<rparr>,
         \<lparr>dependency = TaskAt (region_id tl') (list_id tl') (length (tasks tl') + 1),
          func = FillDerived i (stage_name drv ! nat stage)\<rparr>] @
        (if stage = nstages (integrator drv) then
           [\<lparr>dependency = TaskAt (region_id tl') (list_id tl') (length (tasks tl') + 2),
             func = EstimateTimestep_task i (stage_name drv ! nat stage)\<rparr>]
         else [])\<rparr>"
  using assms
  by (auto simp: region3_body_def and_then_Inr at_index_Inr AddTask_def Let_def Get_Inr
      split: if_splits)

lemma region1_loop_Inr:
  assumes "region1_loop drv alloc stage i blocks region = Inr (blocks', region')"
    and "length region = length blocks"
  shows "length blocks' = length blocks \<and> length region' = length blocks
    \<and> (\<forall>j<length blocks.
          if j < i then blocks' ! j = blocks ! j \<and> region' ! j = region ! j
          else region1_body drv alloc stage j (blocks ! j) (region ! j)
                 = Inr (blocks' ! j, region' ! j))"
  using assms
proof (induction drv alloc stage i blocks region rule: region1_loop.induct)
  case (1 drv alloc stage i blocks region)
  show ?case
  proof (cases "i < length blocks")
    case False
    with "1.prems" show ?thesis
      by (simp add: region1_loop.simps)
  next
    case True
    from "1.prems"(1) True obtain pmb tl2 where
      body: "region1_body drv alloc stage i (blocks ! i) (region ! i) = Inr (pmb, tl2)" and
      rest: "region1_loop drv alloc stage (i + 1) (blocks[i := pmb]) (region[i := tl2])
               = Inr (blocks', region')"
      by (subst (asm) region1_loop.simps) (auto simp: and_then_Inr)
    from "1.prems"(2) have len': "length (region[i := tl2]) = length (blocks[i := pmb])"
      by simp
    have IH: "length blocks' = length blocks \<and> length region' = length blocks
      \<and> (\<forall>j<length blocks.
            if j < i + 1 then blocks' ! j = blocks[i := pmb] ! j \<and> region' ! j = region[i := tl2] ! j
            else region1_body drv alloc stage j (blocks[i := pmb] ! j) (region[i := tl2] ! j)
                   = Inr (blocks' ! j, region' ! j))"
      using "1.IH" [OF True rest len', unfolded length_list_update] .
    have "if j < i then blocks' ! j = blocks ! j \<and> region' ! j = region ! j
          else region1_body drv alloc stage j (blocks ! j) (region ! j)
                 = Inr (blocks' ! j, region' ! j)" if j: "j < length blocks" for j
    proof -
      from IH j have at_j:
        "if j < i + 1 then blocks' ! j = blocks[i := pmb] ! j \<and> region' ! j = region[i := tl2] ! j
         else region1_body drv alloc stage j (blocks[i := pmb] ! j) (region[i := tl2] ! j)
                = Inr (blocks' ! j, region' ! j)"
        by blast
      consider "j < i" | "j = i" | "i < j" by linarith
      then show ?thesis
      proof cases
        case 1 with at_j show ?thesis by simp
      next
        case 2 with at_j body True "1.prems"(2) show ?thesis by simp
      next
        case 3 with at_j show ?thesis by simp
      qed
    qed
    with IH show ?thesis by blast
  qed
qed

lemma region3_loop_Inr:
  assumes "region3_loop drv stage f i blocks region = Inr region'"
    and "length region = length blocks"
  shows "length region' = length blocks
    \<and> (\<forall>j<length blocks.
          if j < i then region' ! j = region ! j
          else region3_body drv stage f j (blocks ! j) (region ! j) = Inr (region' ! j))"
  using assms
proof (induction drv stage f i blocks region rule: region3_loop.induct)
  case (1 drv stage f i blocks region)
  show ?case
  proof (cases "i < length blocks")
    case False
    with "1.prems" show ?thesis
      by (simp add: region3_loop.simps)
  next
    case True
    from "1.prems"(1) True obtain tl3 where
      body: "region3_body drv stage f i (blocks ! i) (region ! i) = Inr tl3" and
      rest: "region3_loop drv stage f (i + 1) blocks (region[i := tl3]) = Inr region'"
      by (subst (asm) region3_loop.simps) (auto simp: and_then_Inr)
    from "1.prems"(2) have len': "length (region[i := tl3]) = length blocks"
      by simp
    have IH: "length region' = length blocks
      \<and> (\<forall>j<length blocks.
            if j < i + 1 then region' ! j = region[i := tl3] ! j
            else region3_body drv stage f j (blocks ! j) (region[i := tl3] ! j)
                   = Inr (region' ! j))"
      using "1.IH" [OF True rest len', unfolded length_list_update] .
    have "if j < i then region' ! j = region ! j
          else region3_body drv stage f j (blocks ! j) (region ! j) = Inr (region' ! j)"
      if j: "j < length blocks" for j
    proof -
      from IH j have at_j:
        "if j < i + 1 then region' ! j = region[i := tl3] ! j
         else region3_body drv stage f j (blocks ! j) (region[i := tl3] ! j) = Inr (region' ! j)"
        by blast
      consider "j < i" | "j = i" | "i < j" by linarith
      then show ?thesis
      proof cases
        case 1 with at_j show ?thesis by simp
      next
        case 2 with at_j body True "1.prems"(2) show ?thesis by simp
      next
        case 3 with at_j show ?thesis by simp
      qed
    qed
    with IH show ?thesis by blast
  qed
qed

lemma MakeTaskCollection_Inr:
  assumes "MakeTaskCollection drv alloc blocks stage = Inr (blocks', tc)"
  shows "\<exists>reg1 tl2 f reg3.
      region1_loop drv alloc stage 0 blocks (new_region 0 (length blocks)) = Inr (blocks', reg1)
    \<and> region2_body drv stage \<lparr>region_id = 1, list_id = 0, tasks = []\<rparr> = Inr (tl2, f)
    \<and> region3_loop drv stage f 0 blocks' (new_region 2 (length blocks)) = Inr reg3
    \<and> tc = [reg1, [tl2], reg3]"
  using assms
  by (auto simp: MakeTaskCollection_def AddRegion_def Let_def and_then_Inr new_region_def numeral_2_eq_2)


lemma new_region_length: "length (new_region r n) = n"
  by (simp add: new_region_def)

lemma new_region_nth: "i < n \<Longrightarrow> new_region r n ! i = \<lparr>region_id = r, list_id = i, tasks = []\<rparr>"
  by (simp add: new_region_def)

lemma MakeTaskCollection_shape:
  assumes "MakeTaskCollection drv alloc blocks stage = Inr (blocks', tc)"
  shows "length tc = 3"
    and "length (tc ! 0) = length blocks"
    and "length (tc ! 2) = length blocks"
    and "length blocks' = length blocks"
    and "1 \<le> stage"
    and "stage < int (length (stage_name drv))"
    and "tc ! 1 =
            [\<lparr>region_id = 1, list_id = 0, tasks =
               [\<lparr>dependency = none,
                 func = FluxDivergenceMesh (stage_name drv ! nat (stage - 1)) ''dUdt''\<rparr>,
                \<lparr>dependency = TaskAt 1 0 0,
                 func = UpdateContainer_task stage (stage_name drv) (integrator drv)\<rparr>,
                \<lparr>dependency = TaskAt 1 0 1,
                 func = SendBoundaryBuffers (stage_name drv ! nat stage)\<rparr>,
                \<lparr>dependency = TaskAt 1 0 2,
                 func = ReceiveBoundaryBuffers (stage_name drv ! nat stage)\<rparr>,
                \<lparr>dependency = TaskAt 1 0 3,
                 func = SetBoundaries (stage_name drv ! nat stage)\<rparr>]\<rparr>]"
    and "\<And>i. i < length blocks \<Longrightarrow>
          region1_body drv alloc stage i (blocks ! i) \<lparr>region_id = 0, list_id = i, tasks = []\<rparr>
            = Inr (blocks' ! i, tc ! 0 ! i)"
    and "\<And>i. i < length blocks \<Longrightarrow>
          region3_body drv stage (TaskAt 1 0 4) i (blocks' ! i)
              \<lparr>region_id = 2, list_id = i, tasks = []\<rparr>
            = Inr (tc ! 2 ! i)"
proof -
  from MakeTaskCollection_Inr [OF assms] obtain reg1 tl2 f reg3 where
    l1: "region1_loop drv alloc stage 0 blocks (new_region 0 (length blocks)) = Inr (blocks', reg1)"
    and b2: "region2_body drv stage \<lparr>region_id = 1, list_id = 0, tasks = []\<rparr> = Inr (tl2, f)"
    and l3: "region3_loop drv stage f 0 blocks' (new_region 2 (length blocks)) = Inr reg3"
    and tc: "tc = [reg1, [tl2], reg3]"
    by blast
  note r2 = region2_body_Inr [OF b2]
  from r2(3) have tl2: "tl2 = \<lparr>region_id = 1, list_id = 0, tasks =
               [\<lparr>dependency = none,
                 func = FluxDivergenceMesh (stage_name drv ! nat (stage - 1)) ''dUdt''\<rparr>,
                \<lparr>dependency = TaskAt 1 0 0,
                 func = UpdateContainer_task stage (stage_name drv) (integrator drv)\<rparr>,
                \<lparr>dependency = TaskAt 1 0 1,
                 func = SendBoundaryBuffers (stage_name drv ! nat stage)\<rparr>,
                \<lparr>dependency = TaskAt 1 0 2,
                 func = ReceiveBoundaryBuffers (stage_name drv ! nat stage)\<rparr>,
                \<lparr>dependency = TaskAt 1 0 3,
                 func = SetBoundaries (stage_name drv ! nat stage)\<rparr>]\<rparr>"
    by simp
  from r2(4) have f: "f = TaskAt 1 0 4"
    by simp
  note bounds = r2(1,2)
  from region1_loop_Inr [OF l1] have
    len1: "length blocks' = length blocks" "length reg1 = length blocks"
    and r1: "\<And>j. j < length blocks \<Longrightarrow>
      region1_body drv alloc stage j (blocks ! j) \<lparr>region_id = 0, list_id = j, tasks = []\<rparr>
        = Inr (blocks' ! j, reg1 ! j)"
    by (simp_all add: new_region_length new_region_nth)
  from region3_loop_Inr [OF l3] len1 have
    len3: "length reg3 = length blocks"
    and r3: "\<And>j. j < length blocks \<Longrightarrow>
      region3_body drv stage f j (blocks' ! j) \<lparr>region_id = 2, list_id = j, tasks = []\<rparr>
        = Inr (reg3 ! j)"
    by (simp_all add: new_region_length new_region_nth)
  from tc have parts: "tc ! 0 = reg1" "tc ! 1 = [tl2]" "tc ! 2 = reg3"
    by simp_all
  show "length tc = 3" using tc by simp
  show "length (tc ! 0) = length blocks" using parts len1 by simp
  show "length (tc ! 2) = length blocks" using parts len3 by simp
  show "length blocks' = length blocks" by (rule len1)
  show "1 \<le> stage" by (rule bounds)
  show "stage < int (length (stage_name drv))" by (rule bounds)
  show "tc ! 1 =
            [\<lparr>region_id = 1, list_id = 0, tasks =
               [\<lparr>dependency = none,
                 func = FluxDivergenceMesh (stage_name drv ! nat (stage - 1)) ''dUdt''\<rparr>,
                \<lparr>dependency = TaskAt 1 0 0,
                 func = UpdateContainer_task stage (stage_name drv) (integrator drv)\<rparr>,
                \<lparr>dependency = TaskAt 1 0 1,
                 func = SendBoundaryBuffers (stage_name drv ! nat stage)\<rparr>,
                \<lparr>dependency = TaskAt 1 0 2,
                 func = ReceiveBoundaryBuffers (stage_name drv ! nat stage)\<rparr>,
                \<lparr>dependency = TaskAt 1 0 3,
                 func = SetBoundaries (stage_name drv ! nat stage)\<rparr>]\<rparr>]"
    unfolding parts tl2 ..
  show "region1_body drv alloc stage i (blocks ! i) \<lparr>region_id = 0, list_id = i, tasks = []\<rparr>
            = Inr (blocks' ! i, tc ! 0 ! i)" if "i < length blocks" for i
    unfolding parts using r1 [OF that] .
  show "region3_body drv stage (TaskAt 1 0 4) i (blocks' ! i)
              \<lparr>region_id = 2, list_id = i, tasks = []\<rparr>
            = Inr (tc ! 2 ! i)" if "i < length blocks" for i
    unfolding parts using r3 [OF that] f by simp
qed

lemma region_A_list:
  assumes "MakeTaskCollection drv alloc blocks stage = Inr (blocks', tc)" and "i < length blocks"
  shows "\<exists>flag. Param_bool (blocks ! i) ''Hydro'' ''use_scratch'' = Inr flag
    \<and> tc ! 0 ! i = \<lparr>region_id = 0, list_id = i, tasks =
        [\<lparr>dependency = none,
          func = StartReceiving i (stage_name drv ! nat stage) BoundaryCommSubset_all\<rparr>,
         \<lparr>dependency = none,
          func = (if flag then CalculateFluxesWScratch i (stage_name drv ! nat (stage - 1)) stage
                  else CalculateFluxes i (stage_name drv ! nat (stage - 1)) stage)\<rparr>]\<rparr>"
  using region1_body_Inr(8) [OF MakeTaskCollection_shape(8) [OF assms]] by simp

lemma region_C_list:
  assumes "MakeTaskCollection drv alloc blocks stage = Inr (blocks', tc)" and "i < length blocks"
  shows "tc ! 2 ! i = \<lparr>region_id = 2, list_id = i, tasks =
        [\<lparr>dependency = none,
          func = ClearBoundary i (stage_name drv ! nat stage) BoundaryCommSubset_all\<rparr>,
         \<lparr>dependency = TaskAt 1 0 4,
          func = ApplyBoundaryConditions i (stage_name drv ! nat stage)\<rparr>,
         \<lparr>dependency = TaskAt 2 i 1, func = FillDerived i (stage_name drv ! nat stage)\<rparr>] @
        (if stage = nstages (integrator drv) then
           [\<lparr>dependency = TaskAt 2 i 2,
             func = EstimateTimestep_task i (stage_name drv ! nat stage)\<rparr>]
         else [])\<rparr>"
  using region3_body_Inr(2) [OF MakeTaskCollection_shape(9) [OF assms]] by simp

section \<open>The call returns exactly when the mesh is ready\<close>

lemma add_stage_containers_returns:
  assumes "0 \<le> i" and "n \<le> int (length names)"
  shows "\<exists>rc'. add_stage_containers alloc names n base i rc = Inr rc'"
  using assms
proof (induction alloc names n base i rc rule: add_stage_containers.induct)
  case (1 alloc names n base i rc)
  show ?case
  proof (cases "i < n")
    case False
    then show ?thesis by (simp add: add_stage_containers.simps)
  next
    case True
    with "1.prems" have name: "at_index names i = Inr (names ! nat i)"
      by (simp add: at_index_def)
    from "1.IH" [OF True, of "names ! nat i"] "1.prems" obtain rc' where
      "add_stage_containers alloc names n base (i + 1) (Add alloc (names ! nat i) base rc) = Inr rc'"
      by auto
    with True name show ?thesis
      by (subst add_stage_containers.simps) (simp add: and_then_def)
  qed
qed

lemma held_after_adds_iff:
  assumes "add_stage_containers alloc (stage_name drv) (nstages (integrator drv)) base 1
             (Add alloc ''dUdt'' base (real_containers pmb)) = Inr rc'"
  shows "rc' name \<noteq> None \<longleftrightarrow> held_after_adds drv pmb name"
proof -
  from add_stage_containers_Inr [OF assms]
  have "rc' name = (case Add alloc ''dUdt'' base (real_containers pmb) name of
            Some c \<Rightarrow> Some c
          | None \<Rightarrow>
              if name \<in> (\<lambda>j. stage_name drv ! nat j) ` {1..<nstages (integrator drv)}
              then Some (alloc base) else None)"
    by simp
  then show ?thesis
    by (auto simp: held_after_adds_def Add_apply split: option.splits if_splits)
qed

lemma region1_body_returns:
  assumes "1 \<le> stage" and "stage < int (length (stage_name drv))"
    and "block_ready drv stage pmb"
  shows "\<exists>r. region1_body drv alloc stage i pmb tl' = Inr r"
proof -
  from assms(1,2) have n: "at_index (stage_name drv) (stage - 1)
      = Inr (stage_name drv ! nat (stage - 1))"
    "at_index (stage_name drv) stage = Inr (stage_name drv ! nat stage)"
    by (simp_all add: at_index_def)
  from assms(3) obtain flag where fl: "Param_bool pmb ''Hydro'' ''use_scratch'' = Inr flag"
    by (auto simp: block_ready_def Param_bool_def split: option.splits)
  have "\<exists>rc sc0 dudt sc1.
      (if stage = 1 then
          and_then (Get (real_containers pmb) ''base'') (\<lambda>base.
          add_stage_containers alloc (stage_name drv) (nstages (integrator drv)) base 1
            (Add alloc ''dUdt'' base (real_containers pmb)))
        else Inr (real_containers pmb)) = Inr rc
    \<and> Get rc (stage_name drv ! nat (stage - 1)) = Inr sc0
    \<and> Get rc ''dUdt'' = Inr dudt
    \<and> Get rc (stage_name drv ! nat stage) = Inr sc1"
  proof (cases "stage = 1")
    case False
    with assms(3) show ?thesis
      by (auto simp: block_ready_def Get_def split: option.splits)
  next
    case True
    with assms(3) obtain base where base: "real_containers pmb ''base'' = Some base"
      and len: "nstages (integrator drv) \<le> int (length (stage_name drv))"
      and h0: "held_after_adds drv pmb (stage_name drv ! nat (stage - 1))"
      and h1: "held_after_adds drv pmb (stage_name drv ! nat stage)"
      by (auto simp: block_ready_def)
    have "(0::int) \<le> 1" by simp
    from add_stage_containers_returns [OF this len, where alloc = alloc and base = base
        and rc = "Add alloc ''dUdt'' base (real_containers pmb)"] obtain rc where
      rc: "add_stage_containers alloc (stage_name drv) (nstages (integrator drv)) base 1
             (Add alloc ''dUdt'' base (real_containers pmb)) = Inr rc"
      by blast
    have hd: "held_after_adds drv pmb ''dUdt''"
      by (simp add: held_after_adds_def)
    note held = held_after_adds_iff [OF rc, THEN iffD2]
    from held [OF h0] held [OF hd] held [OF h1]
    have "rc (stage_name drv ! nat (stage - 1)) \<noteq> None" "rc ''dUdt'' \<noteq> None"
      "rc (stage_name drv ! nat stage) \<noteq> None" .
    with True base rc show ?thesis
      by (auto simp: and_then_def Get_def)
  qed
  then obtain rc sc0 dudt sc1 where
    "(if stage = 1 then
          and_then (Get (real_containers pmb) ''base'') (\<lambda>base.
          add_stage_containers alloc (stage_name drv) (nstages (integrator drv)) base 1
            (Add alloc ''dUdt'' base (real_containers pmb)))
        else Inr (real_containers pmb)) = Inr rc"
    "Get rc (stage_name drv ! nat (stage - 1)) = Inr sc0"
    "Get rc ''dUdt'' = Inr dudt"
    "Get rc (stage_name drv ! nat stage) = Inr sc1"
    by blast
  with n fl show ?thesis
    unfolding region1_body_def
    by (simp add: and_then_def AddTask_def)
qed

lemma region3_body_returns:
  assumes "1 \<le> stage" and "stage < int (length (stage_name drv))"
    and "real_containers pmb (stage_name drv ! nat stage) \<noteq> None"
  shows "\<exists>r. region3_body drv stage f i pmb tl' = Inr r"
  using assms
  by (auto simp: region3_body_def and_then_def at_index_def Get_def AddTask_def)

lemma region2_body_returns:
  assumes "1 \<le> stage" and "stage < int (length (stage_name drv))"
  shows "\<exists>r. region2_body drv stage tl' = Inr r"
  using assms
  by (simp add: region2_body_def and_then_def at_index_def AddTask_def)

lemma region1_loop_returns:
  assumes "\<And>j. i \<le> j \<Longrightarrow> j < length blocks \<Longrightarrow>
             \<exists>r. region1_body drv alloc stage j (blocks ! j) (region ! j) = Inr r"
  shows "\<exists>res. region1_loop drv alloc stage i blocks region = Inr res"
  using assms
proof (induction drv alloc stage i blocks region rule: region1_loop.induct)
  case (1 drv alloc stage i blocks region)
  show ?case
  proof (cases "i < length blocks")
    case False
    then show ?thesis by (simp add: region1_loop.simps)
  next
    case True
    from "1.prems" [of i] True obtain pmb tl2 where
      body: "region1_body drv alloc stage i (blocks ! i) (region ! i) = Inr (pmb, tl2)"
      by auto
    have "\<exists>res. region1_loop drv alloc stage (i + 1) (blocks[i := pmb]) (region[i := tl2])
        = Inr res"
    proof (rule "1.IH" [OF True])
      fix j assume "i + 1 \<le> j" "j < length (blocks[i := pmb])"
      then show "\<exists>r. region1_body drv alloc stage j (blocks[i := pmb] ! j) (region[i := tl2] ! j)
          = Inr r"
        using "1.prems" [of j] by simp
    qed
    with True body show ?thesis
      by (subst region1_loop.simps) (simp add: and_then_def)
  qed
qed

lemma region3_loop_returns:
  assumes "\<And>j. i \<le> j \<Longrightarrow> j < length blocks \<Longrightarrow>
             \<exists>r. region3_body drv stage f j (blocks ! j) (region ! j) = Inr r"
  shows "\<exists>res. region3_loop drv stage f i blocks region = Inr res"
  using assms
proof (induction drv stage f i blocks region rule: region3_loop.induct)
  case (1 drv stage f i blocks region)
  show ?case
  proof (cases "i < length blocks")
    case False
    then show ?thesis by (simp add: region3_loop.simps)
  next
    case True
    from "1.prems" [of i] True obtain tl3 where
      body: "region3_body drv stage f i (blocks ! i) (region ! i) = Inr tl3"
      by auto
    have "\<exists>res. region3_loop drv stage f (i + 1) blocks (region[i := tl3]) = Inr res"
    proof (rule "1.IH" [OF True])
      fix j assume "i + 1 \<le> j" "j < length blocks"
      then show "\<exists>r. region3_body drv stage f j (blocks ! j) (region[i := tl3] ! j) = Inr r"
        using "1.prems" [of j] by simp
    qed
    with True body show ?thesis
      by (subst region3_loop.simps) (simp add: and_then_def)
  qed
qed

lemma MakeTaskCollection_returns:
  assumes "ready drv blocks stage"
  shows "\<exists>blocks' tc. MakeTaskCollection drv alloc blocks stage = Inr (blocks', tc)"
proof -
  from assms have bounds: "1 \<le> stage" "stage < int (length (stage_name drv))"
    and blocks: "\<And>j. j < length blocks \<Longrightarrow> block_ready drv stage (blocks ! j)"
    by (simp_all add: ready_def)
  from region1_loop_returns [of 0 blocks drv alloc stage "new_region 0 (length blocks)"]
    region1_body_returns [OF bounds blocks]
  obtain blocks1 reg1 where
    l1: "region1_loop drv alloc stage 0 blocks (new_region 0 (length blocks)) = Inr (blocks1, reg1)"
    by auto
  from region2_body_returns [OF bounds] obtain tl2 f where
    b2: "region2_body drv stage \<lparr>region_id = 1, list_id = 0, tasks = []\<rparr> = Inr (tl2, f)"
    by fastforce
  note after = region1_loop_Inr [OF l1 new_region_length]
  have "\<exists>r. region3_body drv stage f j (blocks1 ! j) (new_region 2 (length blocks) ! j) = Inr r"
    if "j < length blocks1" for j
  proof -
    from that after have j: "j < length blocks" by simp
    with after have "region1_body drv alloc stage j (blocks ! j) (new_region 0 (length blocks) ! j)
        = Inr (blocks1 ! j, reg1 ! j)"
      by simp
    from region3_body_returns [OF bounds region1_body_Inr(7) [OF this]] show ?thesis .
  qed
  with region3_loop_returns [of 0 blocks1 drv stage f "new_region 2 (length blocks)"]
  obtain reg3 where
    l3: "region3_loop drv stage f 0 blocks1 (new_region 2 (length blocks)) = Inr reg3"
    by auto
  from l1 b2 l3 have "MakeTaskCollection drv alloc blocks stage = Inr (blocks1, [reg1, [tl2], reg3])"
    by (simp add: MakeTaskCollection_def AddRegion_def Let_def and_then_def new_region_def
        numeral_2_eq_2)
  then show ?thesis by blast
qed


lemma region1_body_Inr_ready:
  assumes "region1_body drv alloc stage i pmb tl' = Inr (pmb', tl2)"
  shows "block_ready drv stage pmb"
proof -
  note body = region1_body_Inr [OF assms]
  from body(8) have pkg:
    "case packages pmb ''Hydro'' of None \<Rightarrow> False | Some ps \<Rightarrow> ps ''use_scratch'' \<noteq> None"
    by (auto simp: Param_bool_def split: option.splits)
  show ?thesis
  proof (cases "stage = 1")
    case False
    with body(4,5,6,7) pkg show ?thesis
      by (simp add: block_ready_def)
  next
    case True
    with body(4) obtain base where base: "real_containers pmb ''base'' = Some base" and
      adds: "add_stage_containers alloc (stage_name drv) (nstages (integrator drv)) base 1
               (Add alloc ''dUdt'' base (real_containers pmb)) = Inr (real_containers pmb')"
      by auto
    from add_stage_containers_Inr [OF adds] have
      "1 < nstages (integrator drv) \<longrightarrow> nstages (integrator drv) \<le> int (length (stage_name drv))"
      by simp
    with True body(2) have len: "nstages (integrator drv) \<le> int (length (stage_name drv))"
      by linarith
    note held = held_after_adds_iff [OF adds, THEN iffD1]
    from held [OF body(5)] held [OF body(7)] True base len pkg show ?thesis
      by (simp add: block_ready_def)
  qed
qed

lemma MakeTaskCollection_Inr_ready:
  assumes "MakeTaskCollection drv alloc blocks stage = Inr (blocks', tc)"
  shows "ready drv blocks stage"
proof -
  note shape = MakeTaskCollection_shape [OF assms]
  have "block_ready drv stage pmb" if "pmb \<in> set blocks" for pmb
  proof -
    from that obtain j where j: "j < length blocks" and pmb: "pmb = blocks ! j"
      by (auto simp: in_set_conv_nth)
    from region1_body_Inr_ready [OF shape(8) [OF j]] pmb show ?thesis
      by simp
  qed
  with shape(5,6) show ?thesis
    by (simp add: ready_def)
qed

lemma MakeTaskCollection_returns_iff:
  "(\<exists>blocks' tc. MakeTaskCollection drv alloc blocks stage = Inr (blocks', tc))
     \<longleftrightarrow> ready drv blocks stage"
  using MakeTaskCollection_returns MakeTaskCollection_Inr_ready by blast

section \<open>The worked example, evaluated\<close>

lemma ex_add:
  "add_stage_containers ex_alloc (stage_name ex_drv) 2 (\<lambda>cell. 1) 1
     [''base'' \<mapsto> (\<lambda>cell. 1), ''dUdt'' \<mapsto> (\<lambda>cell. 0)]
   = Inr [''base'' \<mapsto> (\<lambda>cell. 1), ''dUdt'' \<mapsto> (\<lambda>cell. 0), ''1'' \<mapsto> (\<lambda>cell. 0)]"
  by (simp add: add_stage_containers.simps [of _ _ _ _ 1] add_stage_containers.simps [of _ _ _ _ 2]
      ex_drv_def at_index_def and_then_def Add_def ex_alloc_def)

lemma ex_body1: "region1_body ex_drv ex_alloc 1 0 ex_block \<lparr>region_id = 0, list_id = 0, tasks = []\<rparr>
   = Inr (ex_block1, ex_tc1 ! 0 ! 0)"
  using ex_add
  by (simp add: region1_body_def ex_block_def ex_block1_def ex_tc1_def Get_def Add_def
      and_then_def Param_bool_def AddTask_def ex_drv_def at_index_def ex_alloc_def)

lemma ex_run1: "MakeTaskCollection ex_drv ex_alloc [ex_block] 1 = Inr ([ex_block1], ex_tc1)"
  using ex_body1
  by (simp add: MakeTaskCollection_def AddRegion_def new_region_def and_then_def
      region1_loop.simps [of _ _ _ 0] region1_loop.simps [of _ _ _ "Suc 0"]
      region3_loop.simps [of _ _ _ 0] region3_loop.simps [of _ _ _ "Suc 0"]
      region2_body_def region3_body_def AddTask_def at_index_def ex_drv_def ex_tc1_def
      ex_block1_def Get_def)

lemma ex_body2: "region1_body ex_drv ex_alloc 2 0 ex_block1 \<lparr>region_id = 0, list_id = 0, tasks = []\<rparr>
   = Inr (ex_block1, ex_tc2 ! 0 ! 0)"
  by (simp add: region1_body_def ex_block1_def ex_tc2_def Get_def
      and_then_def Param_bool_def AddTask_def ex_drv_def at_index_def)

lemma ex_run2: "MakeTaskCollection ex_drv ex_alloc [ex_block1] 2 = Inr ([ex_block1], ex_tc2)"
  using ex_body2
  by (simp add: MakeTaskCollection_def AddRegion_def new_region_def and_then_def
      region1_loop.simps [of _ _ _ 0] region1_loop.simps [of _ _ _ "Suc 0"]
      region3_loop.simps [of _ _ _ 0] region3_loop.simps [of _ _ _ "Suc 0"]
      region2_body_def region3_body_def AddTask_def at_index_def ex_drv_def ex_tc2_def
      ex_block1_def Get_def)

lemma ex_stage_names:
  "''1'' \<in> (\<lambda>j. stage_name ex_drv ! nat j) ` {1..<nstages (integrator ex_drv)}"
  "''1'' \<in> (\<lambda>j. stage_name ex3_drv ! nat j) ` {1..<nstages (integrator ex3_drv)}"
  "''2'' \<in> (\<lambda>j. stage_name ex3_drv ! nat j) ` {1..<nstages (integrator ex3_drv)}"
proof -
  show "''1'' \<in> (\<lambda>j. stage_name ex_drv ! nat j) ` {1..<nstages (integrator ex_drv)}"
    by (rule image_eqI [of _ _ 1]) (simp_all add: ex_drv_def)
  show "''1'' \<in> (\<lambda>j. stage_name ex3_drv ! nat j) ` {1..<nstages (integrator ex3_drv)}"
    by (rule image_eqI [of _ _ 1]) (simp_all add: ex3_drv_def)
  show "''2'' \<in> (\<lambda>j. stage_name ex3_drv ! nat j) ` {1..<nstages (integrator ex3_drv)}"
    by (rule image_eqI [of _ _ 2]) (simp_all add: ex3_drv_def)
qed

lemma ex_ready1: "ready ex_drv [ex_block] 1"
  using ex_stage_names(1)
  by (simp add: ready_def block_ready_def held_after_adds_def ex_block_def)
     (simp add: ex_drv_def)

lemma ex_ready2: "ready ex_drv [ex_block1] 2"
  by (simp add: ready_def block_ready_def ex_block1_def ex_drv_def)

lemma ex3_ready1: "ready ex3_drv ex3_mesh 1"
  using ex_stage_names(2)
  by (simp add: ready_def block_ready_def held_after_adds_def ex3_mesh_def ex_block_def
      ex_block_s_def)
     (simp add: ex3_drv_def)

lemma ex3_ready2: "ready ex3_drv ex3_mesh1 2"
  by (simp add: ready_def block_ready_def ex3_mesh1_def ex3_drv_def)

lemma ex3_ready3: "ready ex3_drv ex3_mesh1 3"
  by (simp add: ready_def block_ready_def ex3_mesh1_def ex3_drv_def)

lemma ex3_add:
  "add_stage_containers ex_alloc (stage_name ex3_drv) 3 base 1
     [''base'' \<mapsto> base, ''dUdt'' \<mapsto> (\<lambda>cell. 0)]
   = Inr [''base'' \<mapsto> base, ''dUdt'' \<mapsto> (\<lambda>cell. 0), ''1'' \<mapsto> (\<lambda>cell. 0), ''2'' \<mapsto> (\<lambda>cell. 0)]"
  by (simp add: add_stage_containers.simps [of _ _ _ _ 1] add_stage_containers.simps [of _ _ _ _ 2]
      add_stage_containers.simps [of _ _ _ _ 3]
      ex3_drv_def at_index_def and_then_def Add_def ex_alloc_def)

lemma ex3_body1_0:
  "region1_body ex3_drv ex_alloc 1 0 ex_block \<lparr>region_id = 0, list_id = 0, tasks = []\<rparr>
   = Inr (ex3_mesh1 ! 0, ex3_tc1 ! 0 ! 0)"
  using ex3_add [of "\<lambda>cell. 1"]
  by (simp add: region1_body_def ex_block_def ex3_mesh1_def ex3_tc1_def Get_def
      Add_def and_then_def Param_bool_def AddTask_def ex3_drv_def at_index_def ex_alloc_def)

lemma ex3_body1_1:
  "region1_body ex3_drv ex_alloc 1 (Suc 0) ex_block_s \<lparr>region_id = 0, list_id = Suc 0, tasks = []\<rparr>
   = Inr (ex3_mesh1 ! 1, ex3_tc1 ! 0 ! 1)"
  using ex3_add [of "\<lambda>cell. 2"]
  by (simp add: region1_body_def ex_block_s_def ex3_mesh1_def ex3_tc1_def Get_def
      Add_def and_then_def Param_bool_def AddTask_def ex3_drv_def at_index_def ex_alloc_def)

lemma ex3_run1: "MakeTaskCollection ex3_drv ex_alloc ex3_mesh 1 = Inr (ex3_mesh1, ex3_tc1)"
  using ex3_body1_0 ex3_body1_1
  by (simp add: MakeTaskCollection_def AddRegion_def new_region_def and_then_def ex3_mesh_def
      numeral_2_eq_2
      region1_loop.simps [of _ _ _ 0] region1_loop.simps [of _ _ _ "Suc 0"]
      region1_loop.simps [of _ _ _ "Suc (Suc 0)"]
      region3_loop.simps [of _ _ _ 0] region3_loop.simps [of _ _ _ "Suc 0"]
      region3_loop.simps [of _ _ _ "Suc (Suc 0)"]
      region2_body_def region3_body_def AddTask_def at_index_def ex3_drv_def ex3_tc1_def
      ex3_mesh1_def Get_def)

section \<open>The barrier between regions\<close>

lemma in_region_unique: "in_region tc r t \<Longrightarrow> in_region tc r' t \<Longrightarrow> r = r'"
  by (cases t) simp_all

lemma region_done_complete:
  "region_done tc s r \<Longrightarrow> in_region tc r t \<Longrightarrow> progress s t = finished complete"
  by (cases t) (simp_all add: region_done_def)

lemma exec_step_barrier_inv:
  assumes "exec_step tc s s'" and "barrier_inv tc s"
  shows "barrier_inv tc s'"
  using assms
proof (cases rule: exec_step.cases)
  case (start r l p)
  then have "r = current_region s" by simp
  with start assms(2) show ?thesis
    unfolding barrier_inv_def
    by (auto dest: in_region_unique)
next
  case (finish t result)
  with assms(2) show ?thesis
    unfolding barrier_inv_def by auto
next
  case next_region
  with assms(2) show ?thesis
    unfolding barrier_inv_def
    by (auto simp: less_Suc_eq dest: region_done_complete Suc_lessD)
qed

lemma reachable_barrier_inv: "reachable tc s \<Longrightarrow> barrier_inv tc s"
proof (induction rule: reachable.induct)
  case at_start
  show ?case by (simp add: barrier_inv_def initial_def)
next
  case (after_step s s')
  then show ?case by (blast intro: exec_step_barrier_inv)
qed

lemma region_barrier:
  assumes "reachable tc s" and "in_region tc k t" and "in_region tc k' t'" and "k < k'"
    and "progress s t' \<noteq> pending"
  shows "progress s t = finished complete"
proof -
  from assms(1) have inv: "barrier_inv tc s" by (rule reachable_barrier_inv)
  have "\<not> current_region s < k'"
    using inv assms(3,5) unfolding barrier_inv_def by blast
  with assms(4) have "k < current_region s" by simp
  with inv assms(2) show ?thesis unfolding barrier_inv_def by blast
qed


section \<open>Properties of the floor configuration\<close>

lemma invoke_fst: "fst (invoke v c s) = fst s"
  by (cases c; cases s) simp_all

lemma fold_invoke_fst: "fst (fold (invoke v) cs s) = fst s"
  by (induction cs arbitrary: s) (simp_all add: invoke_fst)

text \<open>
  C10. For every pair of scalars \<open>p\<close>, \<open>d\<close> handed to the constructor,
  \<open>GetPressureFloor\<close> returns exactly \<open>p\<close> and \<open>GetDensityFloor\<close> exactly \<open>d\<close>, and
  they still do after any sequence of calls of the member functions of the class,
  whatever the concrete variant behind the two virtual conversions: the object is
  immutable.
\<close>

theorem floors_fixed_at_construction:
  "GetPressureFloor (EquationOfState p d) = p
   \<and> GetDensityFloor (EquationOfState p d) = d
   \<and> fst (fold (invoke v) cs (EquationOfState p d, rc)) = EquationOfState p d"
  by (simp add: GetPressureFloor_def GetDensityFloor_def EquationOfState_def
      fold_invoke_fst)

text \<open>
  C9 as stated fails: the constructor accepts every pair of scalars, and
  constructed with \<open>-1\<close> twice the object reports a negative pressure floor.
\<close>

theorem negative_floor_counterexample:
  "\<not> (0 \<le> GetPressureFloor (EquationOfState (-1 :: real) (-1))
      \<and> 0 \<le> GetDensityFloor (EquationOfState (-1 :: real) (-1)))"
  by (simp add: GetPressureFloor_def EquationOfState_def)

text \<open>
  C9, amended. An object constructed from two non-negative scalars reports
  non-negative floors: \<open>GetPressureFloor() \<ge> 0\<close> and \<open>GetDensityFloor() \<ge> 0\<close>.
\<close>

theorem floors_nonneg_if_arguments_nonneg:
  fixes p d :: "'r :: {zero, ord}"
  assumes "0 \<le> p" and "0 \<le> d"
  shows "0 \<le> GetPressureFloor (EquationOfState p d)
         \<and> 0 \<le> GetDensityFloor (EquationOfState p d)"
  using assms by (simp add: GetPressureFloor_def GetDensityFloor_def EquationOfState_def)

theorem floors_nonneg_if_arguments_nonneg_witness:
  "(0::real) \<le> 0 \<and> (0::real) \<le> 1/2
   \<and> 0 \<le> GetPressureFloor (EquationOfState (0::real) (1/2))
   \<and> 0 \<le> GetDensityFloor (EquationOfState (0::real) (1/2))"
  using floors_nonneg_if_arguments_nonneg [of "0::real" "1/2"] by simp

section \<open>The stage update and the chain of Region B\<close>

lemma region_B_dependency_chain_on_return:
  assumes "MakeTaskCollection drv alloc blocks stage = Inr (blocks', tc)"
  shows "length (tc ! 1) = 1
    \<and> tasks (tc ! 1 ! 0) =
        [\<lparr>dependency = none,
          func = FluxDivergenceMesh (stage_name drv ! nat (stage - 1)) ''dUdt''\<rparr>,
         \<lparr>dependency = TaskAt 1 0 0,
          func = UpdateContainer_task stage (stage_name drv) (integrator drv)\<rparr>,
         \<lparr>dependency = TaskAt 1 0 1, func = SendBoundaryBuffers (stage_name drv ! nat stage)\<rparr>,
         \<lparr>dependency = TaskAt 1 0 2, func = ReceiveBoundaryBuffers (stage_name drv ! nat stage)\<rparr>,
         \<lparr>dependency = TaskAt 1 0 3, func = SetBoundaries (stage_name drv ! nat stage)\<rparr>]
    \<and> (\<forall>k<5. task_at tc (TaskAt 1 0 k) = Some (tasks (tc ! 1 ! 0) ! k))"
proof -
  note shape = MakeTaskCollection_shape [OF assms]
  from shape(1,7) show ?thesis by (simp add: task_at.simps)
qed

text \<open>
  C3. For every stage, Region B is one task list of five tasks: the mesh-wide flux
  divergence with no predecessor, then the stage update depending on it, then
  \<open>SendBoundaryBuffers\<close> depending on the update, \<open>ReceiveBoundaryBuffers\<close>
  depending on the send and \<open>SetBoundaries\<close> depending on the receive. The
  three boundary tasks are issued, mesh-wide, for the container of the stage,
  which is the one the update writes. Each identity \<open>TaskAt 1 0 k\<close> names the task
  at position \<open>k\<close> of this list.
  The call returns a task collection exactly when the stage and the mesh are
  ready, for a mesh of any number of blocks; the statement holds of whatever it
  returns.
\<close>

theorem region_B_dependency_chain:
  "((\<exists>blocks' tc. MakeTaskCollection drv alloc blocks stage = Inr (blocks', tc))
      \<longleftrightarrow> ready drv blocks stage)
   \<and> (MakeTaskCollection drv alloc blocks stage = Inr (blocks', tc) \<longrightarrow>
        length (tc ! 1) = 1
        \<and> tasks (tc ! 1 ! 0) =
            [\<lparr>dependency = none,
              func = FluxDivergenceMesh (stage_name drv ! nat (stage - 1)) ''dUdt''\<rparr>,
             \<lparr>dependency = TaskAt 1 0 0,
              func = UpdateContainer_task stage (stage_name drv) (integrator drv)\<rparr>,
             \<lparr>dependency = TaskAt 1 0 1, func = SendBoundaryBuffers (stage_name drv ! nat stage)\<rparr>,
             \<lparr>dependency = TaskAt 1 0 2, func = ReceiveBoundaryBuffers (stage_name drv ! nat stage)\<rparr>,
             \<lparr>dependency = TaskAt 1 0 3, func = SetBoundaries (stage_name drv ! nat stage)\<rparr>]
        \<and> (\<forall>k<5. task_at tc (TaskAt 1 0 k) = Some (tasks (tc ! 1 ! 0) ! k)))"
  apply (rule conjI)
   apply (rule MakeTaskCollection_returns_iff)
  apply (rule impI)
  apply (rule region_B_dependency_chain_on_return; assumption)
  done

theorem region_B_dependency_chain_witness:
  "ready ex3_drv ex3_mesh1 3
   \<and> (\<exists>blocks' tc. MakeTaskCollection ex3_drv ex_alloc ex3_mesh1 3 = Inr (blocks', tc)
        \<and> length (tc ! 1) = 1
        \<and> tasks (tc ! 1 ! 0) =
            [\<lparr>dependency = none, func = FluxDivergenceMesh ''2'' ''dUdt''\<rparr>,
             \<lparr>dependency = TaskAt 1 0 0,
              func = UpdateContainer_task 3 [''base'', ''1'', ''2'', ''base'']
                     \<lparr>nstages = 3, beta = [1, 1/4, 2/3], dt = 1/10\<rparr>\<rparr>,
             \<lparr>dependency = TaskAt 1 0 1, func = SendBoundaryBuffers ''base''\<rparr>,
             \<lparr>dependency = TaskAt 1 0 2, func = ReceiveBoundaryBuffers ''base''\<rparr>,
             \<lparr>dependency = TaskAt 1 0 3, func = SetBoundaries ''base''\<rparr>]
        \<and> (3::nat) < 5
        \<and> task_at tc (TaskAt 1 0 3)
            = Some \<lparr>dependency = TaskAt 1 0 2, func = ReceiveBoundaryBuffers ''base''\<rparr>)
   \<and> MakeTaskCollection ex3_drv ex_alloc ex3_mesh 1 = Inr (ex3_mesh1, ex3_tc1)
   \<and> tasks (ex3_tc1 ! 1 ! 0) ! 4 = \<lparr>dependency = TaskAt 1 0 3, func = SetBoundaries ''1''\<rparr>"
proof -
  from region_B_dependency_chain [THEN conjunct1, THEN iffD2, OF ex3_ready3, of ex_alloc]
  obtain blocks' tc where
    run: "MakeTaskCollection ex3_drv ex_alloc ex3_mesh1 3 = Inr (blocks', tc)"
    by blast
  note chain = region_B_dependency_chain [THEN conjunct2, THEN mp, OF run]
  from chain have list: "tasks (tc ! 1 ! 0) =
            [\<lparr>dependency = none, func = FluxDivergenceMesh ''2'' ''dUdt''\<rparr>,
             \<lparr>dependency = TaskAt 1 0 0,
              func = UpdateContainer_task 3 [''base'', ''1'', ''2'', ''base'']
                     \<lparr>nstages = 3, beta = [1, 1/4, 2/3], dt = 1/10\<rparr>\<rparr>,
             \<lparr>dependency = TaskAt 1 0 1, func = SendBoundaryBuffers ''base''\<rparr>,
             \<lparr>dependency = TaskAt 1 0 2, func = ReceiveBoundaryBuffers ''base''\<rparr>,
             \<lparr>dependency = TaskAt 1 0 3, func = SetBoundaries ''base''\<rparr>]"
    by (simp add: ex3_drv_def)
  from chain have "task_at tc (TaskAt 1 0 3) = Some (tasks (tc ! 1 ! 0) ! 3)"
    by simp
  with list have at3: "task_at tc (TaskAt 1 0 3)
      = Some \<lparr>dependency = TaskAt 1 0 2, func = ReceiveBoundaryBuffers ''base''\<rparr>"
    by simp
  from chain have one: "length (tc ! 1) = 1"
    by simp
  note chain1 = region_B_dependency_chain [THEN conjunct2, THEN mp, OF ex3_run1]
  from chain1 have first: "tasks (ex3_tc1 ! 1 ! 0) ! 4
      = \<lparr>dependency = TaskAt 1 0 3, func = SetBoundaries ''1''\<rparr>"
    by (simp add: ex3_drv_def)
  from run one list at3 have "\<exists>blocks' tc.
      MakeTaskCollection ex3_drv ex_alloc ex3_mesh1 3 = Inr (blocks', tc)
        \<and> length (tc ! 1) = 1
        \<and> tasks (tc ! 1 ! 0) =
            [\<lparr>dependency = none, func = FluxDivergenceMesh ''2'' ''dUdt''\<rparr>,
             \<lparr>dependency = TaskAt 1 0 0,
              func = UpdateContainer_task 3 [''base'', ''1'', ''2'', ''base'']
                     \<lparr>nstages = 3, beta = [1, 1/4, 2/3], dt = 1/10\<rparr>\<rparr>,
             \<lparr>dependency = TaskAt 1 0 1, func = SendBoundaryBuffers ''base''\<rparr>,
             \<lparr>dependency = TaskAt 1 0 2, func = ReceiveBoundaryBuffers ''base''\<rparr>,
             \<lparr>dependency = TaskAt 1 0 3, func = SetBoundaries ''base''\<rparr>]
        \<and> (3::nat) < 5
        \<and> task_at tc (TaskAt 1 0 3)
            = Some \<lparr>dependency = TaskAt 1 0 2, func = ReceiveBoundaryBuffers ''base''\<rparr>"
    by (intro exI [of _ blocks'] exI [of _ tc]) simp
  with ex3_ready3 ex3_run1 first show ?thesis
    by (intro conjI)
qed

lemma update_block_Inr:
  assumes "update_block name_in name_dudt coef name_out pmb = Inr pmb'"
  shows "\<exists>u d. real_containers pmb name_in = Some u \<and> real_containers pmb name_dudt = Some d
    \<and> real_containers pmb' name_out = Some (\<lambda>cell. u cell + coef * d cell)"
  using assms
  by (auto simp: update_block_def and_then_Inr Get_Inr)

lemma Update_UpdateContainer_Inr:
  assumes "Update_UpdateContainer bs name_in name_dudt coef name_out = Inr bs'"
  shows "length bs' = length bs
    \<and> (\<forall>i<length bs. \<exists>u d.
          real_containers (bs ! i) name_in = Some u \<and> real_containers (bs ! i) name_dudt = Some d
        \<and> real_containers (bs' ! i) name_out = Some (\<lambda>cell. u cell + coef * d cell))"
  using assms
proof (induction bs arbitrary: bs')
  case Nil
  then show ?case by simp
next
  case (Cons pmb bs)
  from Cons.prems obtain pmb' rest where
    head: "update_block name_in name_dudt coef name_out pmb = Inr pmb'" and
    tail: "Update_UpdateContainer bs name_in name_dudt coef name_out = Inr rest" and
    bs': "bs' = pmb' # rest"
    by (auto simp: and_then_Inr)
  from Cons.IH [OF tail] update_block_Inr [OF head] show ?case
    unfolding bs' by (auto simp: nth_Cons split: nat.splits)
qed

lemma stage_update_blend_on_return:
  assumes "MakeTaskCollection drv alloc blocks stage = Inr (blocks', tc)"
    and "stage \<le> int (length (beta (integrator drv)))"
  shows "tasks (tc ! 1 ! 0) ! 1 =
        \<lparr>dependency = TaskAt 1 0 0,
         func = UpdateContainer_task stage (stage_name drv) (integrator drv)\<rparr>
    \<and> run_task lib upd est (func (tasks (tc ! 1 ! 0) ! 1)) bs =
        (case upd bs (stage_name drv ! nat (stage - 1)) ''dUdt''
                (beta (integrator drv) ! nat (stage - 1) * dt (integrator drv))
                (stage_name drv ! nat stage) of
           Inl e \<Rightarrow> Inl e
         | Inr bs' \<Rightarrow> Inr (bs', complete))
    \<and> (\<forall>cs' status.
          run_task lib' Update_UpdateContainer est' (func (tasks (tc ! 1 ! 0) ! 1)) cs
            = Inr (cs', status) \<longrightarrow>
          status = complete \<and> length cs' = length cs
        \<and> (\<forall>i<length cs. \<exists>u d.
              real_containers (cs ! i) (stage_name drv ! nat (stage - 1)) = Some u
            \<and> real_containers (cs ! i) ''dUdt'' = Some d
            \<and> real_containers (cs' ! i) (stage_name drv ! nat stage)
                = Some (\<lambda>cell. u cell
                     + beta (integrator drv) ! nat (stage - 1) * dt (integrator drv) * d cell)))"
proof -
  note shape = MakeTaskCollection_shape [OF assms(1)]
  from shape(5) assms(2) have b: "at_index (beta (integrator drv)) (stage - 1)
      = Inr (beta (integrator drv) ! nat (stage - 1))"
    by (simp add: at_index_def)
  from shape(5,6) have n: "at_index (stage_name drv) (stage - 1)
      = Inr (stage_name drv ! nat (stage - 1))"
    "at_index (stage_name drv) stage = Inr (stage_name drv ! nat stage)"
    by (simp_all add: at_index_def)
  have call: "UpdateContainer upd' xs stage (stage_name drv) (integrator drv) =
      (case upd' xs (stage_name drv ! nat (stage - 1)) ''dUdt''
                (beta (integrator drv) ! nat (stage - 1) * dt (integrator drv))
                (stage_name drv ! nat stage) of
           Inl e \<Rightarrow> Inl e
         | Inr xs' \<Rightarrow> Inr (xs', complete))" for upd' and xs :: 'x
    using b n by (simp add: UpdateContainer_def and_then_def)
  from shape(7) have task: "tasks (tc ! 1 ! 0) ! 1 =
        \<lparr>dependency = TaskAt 1 0 0,
         func = UpdateContainer_task stage (stage_name drv) (integrator drv)\<rparr>"
    by simp
  have lib_update: "status = complete \<and> length cs' = length cs
        \<and> (\<forall>i<length cs. \<exists>u d.
              real_containers (cs ! i) (stage_name drv ! nat (stage - 1)) = Some u
            \<and> real_containers (cs ! i) ''dUdt'' = Some d
            \<and> real_containers (cs' ! i) (stage_name drv ! nat stage)
                = Some (\<lambda>cell. u cell
                     + beta (integrator drv) ! nat (stage - 1) * dt (integrator drv) * d cell))"
    if "run_task lib' Update_UpdateContainer est' (func (tasks (tc ! 1 ! 0) ! 1)) cs
            = Inr (cs', status)" for cs' status
  proof -
    from that task call [of Update_UpdateContainer cs]
    have "Update_UpdateContainer cs (stage_name drv ! nat (stage - 1)) ''dUdt''
                (beta (integrator drv) ! nat (stage - 1) * dt (integrator drv))
                (stage_name drv ! nat stage) = Inr cs'" and "status = complete"
      by (auto split: sum.splits)
    with Update_UpdateContainer_Inr show ?thesis by blast
  qed
  from task call [of upd bs] lib_update show ?thesis
    by simp
qed

text \<open>
  C2. For every stage \<open>s\<close> within the integrator's coefficients, the second task
  of Region B is the stage update, depending on the flux divergence. Run on the
  blocks, it makes one call of the library's container update, which reads the
  container of stage \<open>s - 1\<close> and \<open>dUdt\<close>, takes the coefficient
  \<open>beta[s - 1] * dt\<close>, and writes the container of stage \<open>s\<close>; it reports
  \<open>complete\<close> when that call returns. With the library's update as the
  specification describes it, the container of stage \<open>s\<close> of every block is
  afterwards, in every cell, the container of stage \<open>s - 1\<close> plus
  \<open>beta[s - 1] * dt\<close> times \<open>dUdt\<close>.
  The call returns a task collection exactly when the stage and the mesh are
  ready, for a mesh of any number of blocks; the statement holds of whatever it
  returns.
\<close>

theorem stage_update_blend:
  "((\<exists>blocks' tc. MakeTaskCollection drv alloc blocks stage = Inr (blocks', tc))
      \<longleftrightarrow> ready drv blocks stage)
   \<and> (MakeTaskCollection drv alloc blocks stage = Inr (blocks', tc)
        \<and> stage \<le> int (length (beta (integrator drv))) \<longrightarrow>
        tasks (tc ! 1 ! 0) ! 1 =
            \<lparr>dependency = TaskAt 1 0 0,
             func = UpdateContainer_task stage (stage_name drv) (integrator drv)\<rparr>
        \<and> run_task lib upd est (func (tasks (tc ! 1 ! 0) ! 1)) bs =
            (case upd bs (stage_name drv ! nat (stage - 1)) ''dUdt''
                    (beta (integrator drv) ! nat (stage - 1) * dt (integrator drv))
                    (stage_name drv ! nat stage) of
               Inl e \<Rightarrow> Inl e
             | Inr bs' \<Rightarrow> Inr (bs', complete))
        \<and> (\<forall>cs' status.
              run_task lib' Update_UpdateContainer est' (func (tasks (tc ! 1 ! 0) ! 1)) cs
                = Inr (cs', status) \<longrightarrow>
              status = complete \<and> length cs' = length cs
            \<and> (\<forall>i<length cs. \<exists>u d.
                  real_containers (cs ! i) (stage_name drv ! nat (stage - 1)) = Some u
                \<and> real_containers (cs ! i) ''dUdt'' = Some d
                \<and> real_containers (cs' ! i) (stage_name drv ! nat stage)
                    = Some (\<lambda>cell. u cell
                         + beta (integrator drv) ! nat (stage - 1) * dt (integrator drv) * d cell))))"
  apply (rule conjI)
   apply (rule MakeTaskCollection_returns_iff)
  apply (rule impI)
  apply (erule conjE)
  apply (rule stage_update_blend_on_return; assumption)
  done

theorem stage_update_blend_witness:
  "ready ex_drv [ex_block] 1
   \<and> (\<exists>blocks' tc. MakeTaskCollection ex_drv ex_alloc [ex_block] 1 = Inr (blocks', tc))
   \<and> MakeTaskCollection ex_drv ex_alloc [ex_block] 1 = Inr ([ex_block1], ex_tc1)
   \<and> (1::int) \<le> int (length (beta (integrator ex_drv)))
   \<and> run_task (\<lambda>f bs. Inl (External ''library'')) Update_UpdateContainer (\<lambda>c. 0)
        (func (tasks (ex_tc1 ! 1 ! 0) ! 1)) [ex_block1]
      = Inr ([ex_block1\<lparr>real_containers := (real_containers ex_block1)(''1'' \<mapsto> (\<lambda>cell. 1))\<rparr>],
             complete)
   \<and> (0::nat) < length [ex_block1]
   \<and> real_containers ex_block1 ''base'' = Some (\<lambda>cell. 1)
   \<and> real_containers ex_block1 ''dUdt'' = Some (\<lambda>cell. 0)"
proof -
  have le: "(1::int) \<le> int (length (beta (integrator ex_drv)))"
    by (simp add: ex_drv_def)
  note blend = stage_update_blend [
      where lib = "\<lambda>f bs. Inl (External ''library'')" and upd = Update_UpdateContainer
        and est = "\<lambda>c. 0" and bs = "[ex_block1]"
        and lib' = "\<lambda>f bs. Inl (External ''library'')" and est' = "\<lambda>c. 0"
        and cs = "[ex_block1]", THEN conjunct2, THEN mp, OF conjI [OF ex_run1 le]]
  have call: "Update_UpdateContainer [ex_block1] ''base'' ''dUdt'' (1 * (1/10)) ''1''
      = Inr [ex_block1\<lparr>real_containers := (real_containers ex_block1)(''1'' \<mapsto> (\<lambda>cell. 1))\<rparr>]"
    by (simp add: update_block_def and_then_def Get_def ex_block1_def)
  from blend [THEN conjunct2, THEN conjunct1]
  have "run_task (\<lambda>f bs. Inl (External ''library'')) Update_UpdateContainer (\<lambda>c. 0)
        (func (tasks (ex_tc1 ! 1 ! 0) ! 1)) [ex_block1]
      = (case Update_UpdateContainer [ex_block1] ''base'' ''dUdt'' (1 * (1/10)) ''1'' of
           Inl e \<Rightarrow> Inl e | Inr bs' \<Rightarrow> Inr (bs', complete))"
    by (simp add: ex_drv_def del: Update_UpdateContainer.simps)
  with call have run: "run_task (\<lambda>f bs. Inl (External ''library'')) Update_UpdateContainer (\<lambda>c. 0)
        (func (tasks (ex_tc1 ! 1 ! 0) ! 1)) [ex_block1]
      = Inr ([ex_block1\<lparr>real_containers := (real_containers ex_block1)(''1'' \<mapsto> (\<lambda>cell. 1))\<rparr>],
             complete)"
    by simp
  have "real_containers ex_block1 ''base'' = Some (\<lambda>cell. 1)"
    "real_containers ex_block1 ''dUdt'' = Some (\<lambda>cell. 0)"
    by (simp_all add: ex_block1_def)
  with ex_run1 le run have shown: "MakeTaskCollection ex_drv ex_alloc [ex_block] 1 = Inr ([ex_block1], ex_tc1)
   \<and> (1::int) \<le> int (length (beta (integrator ex_drv)))
   \<and> run_task (\<lambda>f bs. Inl (External ''library'')) Update_UpdateContainer (\<lambda>c. 0)
        (func (tasks (ex_tc1 ! 1 ! 0) ! 1)) [ex_block1]
      = Inr ([ex_block1\<lparr>real_containers := (real_containers ex_block1)(''1'' \<mapsto> (\<lambda>cell. 1))\<rparr>],
             complete)
   \<and> (0::nat) < length [ex_block1]
   \<and> real_containers ex_block1 ''base'' = Some (\<lambda>cell. 1)
   \<and> real_containers ex_block1 ''dUdt'' = Some (\<lambda>cell. 0)" by simp
  have returns: "\<exists>blocks' tc. MakeTaskCollection ex_drv ex_alloc [ex_block] 1 = Inr (blocks', tc)"
    by (rule stage_update_blend [THEN conjunct1, THEN iffD2, OF ex_ready1])
  show ?thesis
    by (rule conjI [OF ex_ready1 conjI [OF returns shown]])
qed

section \<open>Containers and the time-step task\<close>

lemma containers_added_at_stage_1_only_on_return:
  assumes "MakeTaskCollection drv alloc blocks stage = Inr (blocks', tc)"
    and "i < length blocks"
  shows "(stage = 1 \<longrightarrow>
            (\<exists>base. real_containers (blocks ! i) ''base'' = Some base
              \<and> (\<forall>name. real_containers (blocks' ! i) name =
                    (case real_containers (blocks ! i) name of
                       Some c \<Rightarrow> Some c
                     | None \<Rightarrow>
                         if name = ''dUdt''
                           \<or> name \<in> (\<lambda>j. stage_name drv ! nat j) ` {1..<nstages (integrator drv)}
                         then Some (alloc base) else None))))
    \<and> (stage \<noteq> 1 \<longrightarrow> blocks' ! i = blocks ! i)
    \<and> packages (blocks' ! i) = packages (blocks ! i)
    \<and> block_timestep (blocks' ! i) = block_timestep (blocks ! i)"
proof -
  note body = region1_body_Inr [OF MakeTaskCollection_shape(8) [OF assms]]
  from body(3) have same: "packages (blocks' ! i) = packages (blocks ! i)"
    "block_timestep (blocks' ! i) = block_timestep (blocks ! i)"
    by (metis MeshBlock.select_convs(2) MeshBlock.surjective MeshBlock.update_convs(1),
        metis MeshBlock.select_convs(3) MeshBlock.surjective MeshBlock.update_convs(1))
  have other: "blocks' ! i = blocks ! i" if "stage \<noteq> 1"
  proof -
    from body(4) that have "real_containers (blocks' ! i) = real_containers (blocks ! i)"
      by simp
    with body(3) show ?thesis by simp
  qed
  have first: "\<exists>base. real_containers (blocks ! i) ''base'' = Some base
              \<and> (\<forall>name. real_containers (blocks' ! i) name =
                    (case real_containers (blocks ! i) name of
                       Some c \<Rightarrow> Some c
                     | None \<Rightarrow>
                         if name = ''dUdt''
                           \<or> name \<in> (\<lambda>j. stage_name drv ! nat j) ` {1..<nstages (integrator drv)}
                         then Some (alloc base) else None))" if "stage = 1"
  proof -
    from body(4) that obtain base where
      base: "real_containers (blocks ! i) ''base'' = Some base" and
      adds: "add_stage_containers alloc (stage_name drv) (nstages (integrator drv)) base 1
               (Add alloc ''dUdt'' base (real_containers (blocks ! i)))
             = Inr (real_containers (blocks' ! i))"
      by auto
    from add_stage_containers_Inr [OF adds] have
      "real_containers (blocks' ! i) name =
         (case Add alloc ''dUdt'' base (real_containers (blocks ! i)) name of
            Some c \<Rightarrow> Some c
          | None \<Rightarrow>
              if name \<in> (\<lambda>j. stage_name drv ! nat j) ` {1..<nstages (integrator drv)}
              then Some (alloc base) else None)" for name
      by simp
    then have "real_containers (blocks' ! i) name =
                    (case real_containers (blocks ! i) name of
                       Some c \<Rightarrow> Some c
                     | None \<Rightarrow>
                         if name = ''dUdt''
                           \<or> name \<in> (\<lambda>j. stage_name drv ! nat j) ` {1..<nstages (integrator drv)}
                         then Some (alloc base) else None)" for name
      by (simp add: Add_apply split: option.splits)
    with base show ?thesis by blast
  qed
  from first other same show ?thesis by blast
qed

text \<open>
  C5. Called with \<open>stage = 1\<close>, the driver adds to every block, from the block's
  base container, the container \<open>dUdt\<close> and the containers named
  \<open>stage_name[1]\<close> to \<open>stage_name[nstages - 1]\<close>: afterwards each of these names
  holds the container it held before, or else a fresh copy of base, and no other
  name is new. Called with any other stage, it leaves every block as it was. The
  packages and the time step of a block are never touched.
  The call returns a task collection exactly when the stage and the mesh are
  ready, for a mesh of any number of blocks; the statement holds of whatever it
  returns.
\<close>

theorem containers_added_at_stage_1_only:
  "((\<exists>blocks' tc. MakeTaskCollection drv alloc blocks stage = Inr (blocks', tc))
      \<longleftrightarrow> ready drv blocks stage)
   \<and> (MakeTaskCollection drv alloc blocks stage = Inr (blocks', tc)
        \<and> i < length blocks \<longrightarrow>
        (stage = 1 \<longrightarrow>
                (\<exists>base. real_containers (blocks ! i) ''base'' = Some base
                  \<and> (\<forall>name. real_containers (blocks' ! i) name =
                        (case real_containers (blocks ! i) name of
                           Some c \<Rightarrow> Some c
                         | None \<Rightarrow>
                             if name = ''dUdt''
                               \<or> name \<in> (\<lambda>j. stage_name drv ! nat j) ` {1..<nstages (integrator drv)}
                             then Some (alloc base) else None))))
        \<and> (stage \<noteq> 1 \<longrightarrow> blocks' ! i = blocks ! i)
        \<and> packages (blocks' ! i) = packages (blocks ! i)
        \<and> block_timestep (blocks' ! i) = block_timestep (blocks ! i))"
  apply (rule conjI)
   apply (rule MakeTaskCollection_returns_iff)
  apply (rule impI)
  apply (erule conjE)
  apply (rule containers_added_at_stage_1_only_on_return; assumption)
  done

theorem containers_added_at_stage_1_only_witness:
  "ready ex3_drv ex3_mesh 1
   \<and> MakeTaskCollection ex3_drv ex_alloc ex3_mesh 1 = Inr (ex3_mesh1, ex3_tc1)
   \<and> (1::nat) < length ex3_mesh
   \<and> real_containers (ex3_mesh ! 1) ''base'' = Some (\<lambda>cell. 2)
   \<and> real_containers (ex3_mesh ! 1) ''2'' = None
   \<and> (\<lambda>j. stage_name ex3_drv ! nat j) ` {1..<nstages (integrator ex3_drv)} = {''1'', ''2''}
   \<and> real_containers (ex3_mesh1 ! 1) ''base'' = Some (\<lambda>cell. 2)
   \<and> real_containers (ex3_mesh1 ! 1) ''dUdt'' = Some (ex_alloc (\<lambda>cell. 2))
   \<and> real_containers (ex3_mesh1 ! 1) ''1'' = Some (ex_alloc (\<lambda>cell. 2))
   \<and> real_containers (ex3_mesh1 ! 1) ''2'' = Some (ex_alloc (\<lambda>cell. 2))
   \<and> real_containers (ex3_mesh1 ! 1) ''3'' = None
   \<and> ready ex3_drv ex3_mesh1 2 \<and> (2::int) \<noteq> 1 \<and> (1::nat) < length ex3_mesh1
   \<and> (\<exists>blocks' tc. MakeTaskCollection ex3_drv ex_alloc ex3_mesh1 2 = Inr (blocks', tc)
        \<and> blocks' ! 1 = ex3_mesh1 ! 1)"
proof -
  have i: "(1::nat) < length ex3_mesh" "(1::nat) < length ex3_mesh1"
    by (simp_all add: ex3_mesh_def ex3_mesh1_def)
  note at1 = containers_added_at_stage_1_only [THEN conjunct2, THEN mp,
      OF conjI [OF ex3_run1 i(1)]]
  have before: "real_containers (ex3_mesh ! 1) ''base'' = Some (\<lambda>cell. 2)"
    "real_containers (ex3_mesh ! 1) ''dUdt'' = None"
    "real_containers (ex3_mesh ! 1) ''1'' = None"
    "real_containers (ex3_mesh ! 1) ''2'' = None"
    "real_containers (ex3_mesh ! 1) ''3'' = None"
    by (simp_all add: ex3_mesh_def ex_block_s_def)
  have "{1..<3::int} = {1, 2}"
    by auto
  then have added:
    "(\<lambda>j. stage_name ex3_drv ! nat j) ` {1..<nstages (integrator ex3_drv)} = {''1'', ''2''}"
    by (simp add: ex3_drv_def)
  from at1 before(1) obtain base where
    "Some (\<lambda>cell. 2) = Some base" and
    names: "\<And>name. real_containers (ex3_mesh1 ! 1) name =
          (case real_containers (ex3_mesh ! 1) name of
             Some c \<Rightarrow> Some c
           | None \<Rightarrow>
               if name = ''dUdt''
                 \<or> name \<in> (\<lambda>j. stage_name ex3_drv ! nat j) ` {1..<nstages (integrator ex3_drv)}
               then Some (ex_alloc base) else None)"
    by auto
  then have base: "base = (\<lambda>cell. 2)" by simp
  from names [of "''base''"] before
  have kept: "real_containers (ex3_mesh1 ! 1) ''base'' = Some (\<lambda>cell. 2)"
    by simp
  from names [of "''dUdt''"] before base
  have dudt: "real_containers (ex3_mesh1 ! 1) ''dUdt'' = Some (ex_alloc (\<lambda>cell. 2))"
    by simp
  from names [of "''1''"] before base added
  have one: "real_containers (ex3_mesh1 ! 1) ''1'' = Some (ex_alloc (\<lambda>cell. 2))"
    by simp
  from names [of "''2''"] before base added
  have two: "real_containers (ex3_mesh1 ! 1) ''2'' = Some (ex_alloc (\<lambda>cell. 2))"
    by simp
  from names [of "''3''"] before added
  have three: "real_containers (ex3_mesh1 ! 1) ''3'' = None"
    by simp
  from containers_added_at_stage_1_only [THEN conjunct1, THEN iffD2, OF ex3_ready2, of ex_alloc]
  obtain blocks' tc where
    run2: "MakeTaskCollection ex3_drv ex_alloc ex3_mesh1 2 = Inr (blocks', tc)"
    by blast
  note at2 = containers_added_at_stage_1_only [THEN conjunct2, THEN mp,
      OF conjI [OF run2 i(2)]]
  from at2 have "blocks' ! 1 = ex3_mesh1 ! 1"
    by simp
  with run2 have unchanged: "\<exists>blocks' tc.
      MakeTaskCollection ex3_drv ex_alloc ex3_mesh1 2 = Inr (blocks', tc)
        \<and> blocks' ! 1 = ex3_mesh1 ! 1"
    by blast
  have ne: "(2::int) \<noteq> 1" by simp
  from ex3_ready1 ex3_run1 i(1) before(1) before(4) added kept dudt one two three
    ex3_ready2 ne i(2) unchanged
  show ?thesis
    by (intro conjI)
qed

lemma timestep_task_only_on_final_stage_on_return:
  assumes "MakeTaskCollection drv alloc blocks stage = Inr (blocks', tc)"
    and "i < length blocks"
  shows "((\<exists>t \<in> set (tasks (tc ! 2 ! i)). \<exists>j name. func t = EstimateTimestep_task j name)
            \<longleftrightarrow> stage = nstages (integrator drv))
    \<and> (stage = nstages (integrator drv) \<longrightarrow>
          length (tasks (tc ! 2 ! i)) = 4
        \<and> tasks (tc ! 2 ! i) ! 3 =
            \<lparr>dependency = TaskAt 2 i 2,
             func = EstimateTimestep_task i (stage_name drv ! nat stage)\<rparr>
        \<and> task_at tc (TaskAt 2 i 2) =
            Some \<lparr>dependency = TaskAt 2 i 1, func = FillDerived i (stage_name drv ! nat stage)\<rparr>
        \<and> (\<forall>bs rc. i < length bs
              \<and> real_containers (bs ! i) (stage_name drv ! nat stage) = Some rc \<longrightarrow>
              run_task lib upd est (func (tasks (tc ! 2 ! i) ! 3)) bs
                = Inr (bs[i := (bs ! i)\<lparr>block_timestep := est rc\<rparr>], complete)))"
proof -
  note shape = MakeTaskCollection_shape [OF assms(1)]
  note list = region_C_list [OF assms]
  show ?thesis
  proof (cases "stage = nstages (integrator drv)")
    case True
    with list have tasks: "tasks (tc ! 2 ! i) =
        [\<lparr>dependency = none,
          func = ClearBoundary i (stage_name drv ! nat stage) BoundaryCommSubset_all\<rparr>,
         \<lparr>dependency = TaskAt 1 0 4,
          func = ApplyBoundaryConditions i (stage_name drv ! nat stage)\<rparr>,
         \<lparr>dependency = TaskAt 2 i 1, func = FillDerived i (stage_name drv ! nat stage)\<rparr>,
         \<lparr>dependency = TaskAt 2 i 2,
          func = EstimateTimestep_task i (stage_name drv ! nat stage)\<rparr>]"
      by simp
    have at: "task_at tc (TaskAt 2 i 2) =
            Some \<lparr>dependency = TaskAt 2 i 1, func = FillDerived i (stage_name drv ! nat stage)\<rparr>"
      using shape(1,3) assms(2) tasks by (simp add: task_at.simps)
    have run: "run_task lib upd est (func (tasks (tc ! 2 ! i) ! 3)) bs
                = Inr (bs[i := (bs ! i)\<lparr>block_timestep := est rc\<rparr>], complete)"
      if "i < length bs" "real_containers (bs ! i) (stage_name drv ! nat stage) = Some rc"
      for bs rc
      using that tasks by (simp add: new_dt_lambda_def and_then_def Get_def)
    from True tasks at run show ?thesis
      by auto
  next
    case False
    with list have tasks: "tasks (tc ! 2 ! i) =
        [\<lparr>dependency = none,
          func = ClearBoundary i (stage_name drv ! nat stage) BoundaryCommSubset_all\<rparr>,
         \<lparr>dependency = TaskAt 1 0 4,
          func = ApplyBoundaryConditions i (stage_name drv ! nat stage)\<rparr>,
         \<lparr>dependency = TaskAt 2 i 1, func = FillDerived i (stage_name drv ! nat stage)\<rparr>]"
      by simp
    with False show ?thesis by auto
  qed
qed

text \<open>
  C6. The Region C list of a block holds a timestep-estimation task exactly when
  the stage is the integrator's \<open>nstages\<close>. It is then the fourth and last task of
  the list and depends on the third, the derived-field fill, which itself follows
  the boundary conditions. Run on the blocks, it estimates the time step from the
  block's container of the stage, the one Region B has updated, and records it as
  that block's time step, reporting \<open>complete\<close>.
  The call returns a task collection exactly when the stage and the mesh are
  ready, for a mesh of any number of blocks; the statement holds of whatever it
  returns.
\<close>

theorem timestep_task_only_on_final_stage:
  "((\<exists>blocks' tc. MakeTaskCollection drv alloc blocks stage = Inr (blocks', tc))
      \<longleftrightarrow> ready drv blocks stage)
   \<and> (MakeTaskCollection drv alloc blocks stage = Inr (blocks', tc)
        \<and> i < length blocks \<longrightarrow>
        ((\<exists>t \<in> set (tasks (tc ! 2 ! i)). \<exists>j name. func t = EstimateTimestep_task j name)
                \<longleftrightarrow> stage = nstages (integrator drv))
        \<and> (stage = nstages (integrator drv) \<longrightarrow>
              length (tasks (tc ! 2 ! i)) = 4
            \<and> tasks (tc ! 2 ! i) ! 3 =
                \<lparr>dependency = TaskAt 2 i 2,
                 func = EstimateTimestep_task i (stage_name drv ! nat stage)\<rparr>
            \<and> task_at tc (TaskAt 2 i 2) =
                Some \<lparr>dependency = TaskAt 2 i 1, func = FillDerived i (stage_name drv ! nat stage)\<rparr>
            \<and> (\<forall>bs rc. i < length bs
                  \<and> real_containers (bs ! i) (stage_name drv ! nat stage) = Some rc \<longrightarrow>
                  run_task lib upd est (func (tasks (tc ! 2 ! i) ! 3)) bs
                    = Inr (bs[i := (bs ! i)\<lparr>block_timestep := est rc\<rparr>], complete))))"
  apply (rule conjI)
   apply (rule MakeTaskCollection_returns_iff)
  apply (rule impI)
  apply (erule conjE)
  apply (rule timestep_task_only_on_final_stage_on_return; assumption)
  done

theorem timestep_task_only_on_final_stage_witness:
  "ready ex_drv [ex_block1] 2
   \<and> (\<exists>blocks' tc. MakeTaskCollection ex_drv ex_alloc [ex_block1] 2 = Inr (blocks', tc))
   \<and> MakeTaskCollection ex_drv ex_alloc [ex_block] 1 = Inr ([ex_block1], ex_tc1)
   \<and> MakeTaskCollection ex_drv ex_alloc [ex_block1] 2 = Inr ([ex_block1], ex_tc2)
   \<and> (0::nat) < length [ex_block] \<and> (0::nat) < length [ex_block1]
   \<and> (1::int) \<noteq> nstages (integrator ex_drv)
   \<and> \<not> (\<exists>t \<in> set (tasks (ex_tc1 ! 2 ! 0)). \<exists>j name. func t = EstimateTimestep_task j name)
   \<and> (2::int) = nstages (integrator ex_drv)
   \<and> tasks (ex_tc2 ! 2 ! 0) ! 3 =
        \<lparr>dependency = TaskAt 2 0 2, func = EstimateTimestep_task 0 ''base''\<rparr>
   \<and> real_containers ([ex_block1] ! 0) (stage_name ex_drv ! nat 2) = Some (\<lambda>cell. 1)
   \<and> run_task (\<lambda>f bs. Inl (External ''library'')) (\<lambda>bs a b c d. Inr bs) (\<lambda>rc. rc 0 / 2)
        (func (tasks (ex_tc2 ! 2 ! 0) ! 3)) [ex_block1]
      = Inr ([ex_block1\<lparr>block_timestep := 1/2\<rparr>], complete)"
proof -
  have i: "(0::nat) < length [ex_block]" "(0::nat) < length [ex_block1]"
    by simp_all
  have n: "(1::int) \<noteq> nstages (integrator ex_drv)" "(2::int) = nstages (integrator ex_drv)"
    by (simp_all add: ex_drv_def)
  note at1 = timestep_task_only_on_final_stage [THEN conjunct2, THEN mp,
      OF conjI [OF ex_run1 i(1)]]
  note at2 = timestep_task_only_on_final_stage [
      where lib = "\<lambda>f bs. Inl (External ''library'')" and upd = "\<lambda>bs a b c d. Inr bs"
        and est = "\<lambda>rc. rc 0 / 2", THEN conjunct2, THEN mp, OF conjI [OF ex_run2 i(2)]]
  from at1 [THEN conjunct1] n(1)
  have absent: "\<not> (\<exists>t \<in> set (tasks (ex_tc1 ! 2 ! 0)). \<exists>j name. func t = EstimateTimestep_task j name)"
    by simp
  have rc: "real_containers ([ex_block1] ! 0) (stage_name ex_drv ! nat 2) = Some (\<lambda>cell. 1)"
    by (simp add: ex_block1_def ex_drv_def)
  note final = at2 [THEN conjunct2, THEN mp, OF n(2)]
  note task = final [THEN conjunct2, THEN conjunct1]
  note run = final [THEN conjunct2, THEN conjunct2, THEN conjunct2, rule_format]
  from run [of "[ex_block1]" "\<lambda>cell. 1"] rc i(2)
  have ran: "run_task (\<lambda>f bs. Inl (External ''library'')) (\<lambda>bs a b c d. Inr bs) (\<lambda>rc. rc 0 / 2)
        (func (tasks (ex_tc2 ! 2 ! 0) ! 3)) [ex_block1]
      = Inr ([ex_block1\<lparr>block_timestep := 1/2\<rparr>], complete)"
    by simp
  from task have task': "tasks (ex_tc2 ! 2 ! 0) ! 3 =
        \<lparr>dependency = TaskAt 2 0 2, func = EstimateTimestep_task 0 ''base''\<rparr>"
    by (simp add: ex_drv_def)
  from ex_run1 ex_run2 i n absent task' rc ran have shown: "MakeTaskCollection ex_drv ex_alloc [ex_block] 1 = Inr ([ex_block1], ex_tc1)
   \<and> MakeTaskCollection ex_drv ex_alloc [ex_block1] 2 = Inr ([ex_block1], ex_tc2)
   \<and> (0::nat) < length [ex_block] \<and> (0::nat) < length [ex_block1]
   \<and> (1::int) \<noteq> nstages (integrator ex_drv)
   \<and> \<not> (\<exists>t \<in> set (tasks (ex_tc1 ! 2 ! 0)). \<exists>j name. func t = EstimateTimestep_task j name)
   \<and> (2::int) = nstages (integrator ex_drv)
   \<and> tasks (ex_tc2 ! 2 ! 0) ! 3 =
        \<lparr>dependency = TaskAt 2 0 2, func = EstimateTimestep_task 0 ''base''\<rparr>
   \<and> real_containers ([ex_block1] ! 0) (stage_name ex_drv ! nat 2) = Some (\<lambda>cell. 1)
   \<and> run_task (\<lambda>f bs. Inl (External ''library'')) (\<lambda>bs a b c d. Inr bs) (\<lambda>rc. rc 0 / 2)
        (func (tasks (ex_tc2 ! 2 ! 0) ! 3)) [ex_block1]
      = Inr ([ex_block1\<lparr>block_timestep := 1/2\<rparr>], complete)"
    by (intro conjI)
  have returns: "\<exists>blocks' tc. MakeTaskCollection ex_drv ex_alloc [ex_block1] 2 = Inr (blocks', tc)"
    by (rule timestep_task_only_on_final_stage [THEN conjunct1, THEN iffD2, OF ex_ready2])
  show ?thesis
    by (rule conjI [OF ex_ready2 conjI [OF returns shown]])
qed

section \<open>Construction of the driver\<close>

text \<open>
  C8. Constructing the driver from an input without the required key
  \<open>hydro/eos\<close> fails, whatever the base-class constructor does. With the required
  key present and the desired key \<open>hydro/cfl\<close> absent, the construction succeeds
  as soon as the base-class constructor does, and the only trace of the absent
  key is one warning.
\<close>

theorem missing_eos_is_fatal_missing_cfl_warns:
  "(pin (''hydro'', ''eos'') = None \<longrightarrow> isl (HydroDriver base pin app_in pm))
   \<and> (pin (''hydro'', ''eos'') \<noteq> None \<and> pin (''hydro'', ''cfl'') = None
        \<and> base pin app_in pm = Inr drv \<longrightarrow>
      HydroDriver base pin app_in pm = Inr (drv, [DesiredMissing ''hydro'' ''cfl'']))
   \<and> (pin (''hydro'', ''eos'') = None \<and> base pin app_in pm = Inr drv \<longrightarrow>
      HydroDriver base pin app_in pm = Inl (RequiredMissing ''hydro'' ''eos''))"
  by (auto simp: HydroDriver_def and_then_def CheckRequired_def CheckDesired_def
      split: sum.splits option.splits)

theorem missing_eos_is_fatal_missing_cfl_warns_witness:
  "(Map.empty :: ParameterInput) (''hydro'', ''eos'') = None
   \<and> HydroDriver (\<lambda>pin app_in pm. Inr ex_drv) Map.empty () ()
       = Inl (RequiredMissing ''hydro'' ''eos'')
   \<and> [(''hydro'', ''eos'') \<mapsto> ''adiabatic''] (''hydro'', ''eos'') \<noteq> None
   \<and> [(''hydro'', ''eos'') \<mapsto> ''adiabatic''] (''hydro'', ''cfl'') = None
   \<and> HydroDriver (\<lambda>pin app_in pm. Inr ex_drv) [(''hydro'', ''eos'') \<mapsto> ''adiabatic''] () ()
       = Inr (ex_drv, [DesiredMissing ''hydro'' ''cfl''])"
proof -
  note absent = missing_eos_is_fatal_missing_cfl_warns
    [where pin = Map.empty and base = "\<lambda>pin app_in pm. Inr ex_drv" and app_in = "()"
       and pm = "()" and drv = ex_drv]
  note present = missing_eos_is_fatal_missing_cfl_warns
    [where pin = "[(''hydro'', ''eos'') \<mapsto> ''adiabatic'']"
       and base = "\<lambda>pin app_in pm. Inr ex_drv" and app_in = "()" and pm = "()" and drv = ex_drv]
  from absent have a: "HydroDriver (\<lambda>pin app_in pm. Inr ex_drv) Map.empty () ()
       = Inl (RequiredMissing ''hydro'' ''eos'')"
    by simp
  from present have p: "HydroDriver (\<lambda>pin app_in pm. Inr ex_drv)
       [(''hydro'', ''eos'') \<mapsto> ''adiabatic''] () () = Inr (ex_drv, [DesiredMissing ''hydro'' ''cfl''])"
    by simp
  from a p show ?thesis by simp
qed

section \<open>Regions, barriers and the order of the boundary tasks\<close>

lemma completed_start: "reachable tc (completed [] 0)"
  using at_start [of tc] by (simp add: completed_def initial_def)

lemma completed_task:
  assumes reach: "reachable tc (completed ts k)"
    and here: "in_region tc k (TaskAt r l p)"
    and fresh: "TaskAt r l p \<notin> set ts"
    and dep: "case task_at tc (TaskAt r l p) of
                None \<Rightarrow> False
              | Some task \<Rightarrow> dependency task = none \<or> dependency task \<in> set ts"
  shows "reachable tc (completed (TaskAt r l p # ts) k)"
proof -
  let ?s = "completed ts k"
  let ?t = "TaskAt r l p"
  let ?s1 = "?s\<lparr>progress := (progress ?s)(?t := running)\<rparr>"
  have "exec_step tc ?s ?s1"
  proof (rule exec_step.start)
    show "in_region tc (current_region ?s) ?t"
      using here by (simp add: completed_def)
    show "progress ?s ?t = pending \<or> progress ?s ?t = finished incomplete"
      using fresh by (simp add: completed_def)
    show "predecessor_complete tc ?s ?t"
      using dep by (auto simp: predecessor_complete_def completed_def split: option.splits)
    show "\<not> list_failed tc ?s r l"
      by (simp add: list_failed_def completed_def)
  qed
  with reach have r1: "reachable tc ?s1" by (rule after_step)
  have "exec_step tc ?s1 (?s1\<lparr>progress := (progress ?s1)(?t := finished complete)\<rparr>)"
    by (rule exec_step.finish) simp
  with r1 have "reachable tc (?s1\<lparr>progress := (progress ?s1)(?t := finished complete)\<rparr>)"
    by (rule after_step)
  moreover have "?s1\<lparr>progress := (progress ?s1)(?t := finished complete)\<rparr>
      = completed (?t # ts) k"
    by (auto simp: completed_def)
  ultimately show ?thesis by simp
qed

lemma completed_region:
  assumes reach: "reachable tc (completed ts k)"
    and k: "k < length tc"
    and all: "\<forall>l<length (tc ! k). \<forall>p<length (tasks (tc ! k ! l)). TaskAt k l p \<in> set ts"
  shows "reachable tc (completed ts (Suc k))"
proof -
  let ?s = "completed ts k"
  have "exec_step tc ?s (?s\<lparr>current_region := Suc (current_region ?s)\<rparr>)"
  proof (rule exec_step.next_region)
    show "current_region ?s < length tc" using k by (simp add: completed_def)
    show "region_done tc ?s (current_region ?s)"
      using all by (simp add: region_done_def completed_def)
  qed
  with reach have "reachable tc (?s\<lparr>current_region := Suc (current_region ?s)\<rparr>)"
    by (rule after_step)
  then show ?thesis by (simp add: completed_def)
qed

lemma ex_reachable:
  "reachable ex_tc1
     (completed [TaskAt 2 0 0, TaskAt 1 0 4, TaskAt 1 0 3, TaskAt 1 0 2, TaskAt 1 0 1, TaskAt 1 0 0,
                 TaskAt 0 0 1, TaskAt 0 0 0] 2)"
proof -
  note [simp] = ex_tc1_def task_at.simps less_Suc_eq
  have "reachable ex_tc1 (completed [] 0)"
    by (rule completed_start)
  then have "reachable ex_tc1 (completed [TaskAt 0 0 0] 0)"
    by (rule completed_task) simp_all
  then have "reachable ex_tc1 (completed [TaskAt 0 0 1, TaskAt 0 0 0] 0)"
    by (rule completed_task) simp_all
  then have "reachable ex_tc1 (completed [TaskAt 0 0 1, TaskAt 0 0 0] (Suc 0))"
    by (rule completed_region) simp_all
  then have "reachable ex_tc1 (completed [TaskAt 0 0 1, TaskAt 0 0 0] 1)"
    by simp
  then have "reachable ex_tc1 (completed [TaskAt 1 0 0, TaskAt 0 0 1, TaskAt 0 0 0] 1)"
    by (rule completed_task) simp_all
  then have "reachable ex_tc1 (completed [TaskAt 1 0 1, TaskAt 1 0 0, TaskAt 0 0 1, TaskAt 0 0 0] 1)"
    by (rule completed_task) simp_all
  then have "reachable ex_tc1
      (completed [TaskAt 1 0 2, TaskAt 1 0 1, TaskAt 1 0 0, TaskAt 0 0 1, TaskAt 0 0 0] 1)"
    by (rule completed_task) simp_all
  then have "reachable ex_tc1
      (completed [TaskAt 1 0 3, TaskAt 1 0 2, TaskAt 1 0 1, TaskAt 1 0 0, TaskAt 0 0 1,
                  TaskAt 0 0 0] 1)"
    by (rule completed_task) simp_all
  then have "reachable ex_tc1
      (completed [TaskAt 1 0 4, TaskAt 1 0 3, TaskAt 1 0 2, TaskAt 1 0 1, TaskAt 1 0 0,
                  TaskAt 0 0 1, TaskAt 0 0 0] 1)"
    by (rule completed_task) simp_all
  then have "reachable ex_tc1
      (completed [TaskAt 1 0 4, TaskAt 1 0 3, TaskAt 1 0 2, TaskAt 1 0 1, TaskAt 1 0 0,
                  TaskAt 0 0 1, TaskAt 0 0 0] (Suc 1))"
    by (rule completed_region) simp_all
  then have "reachable ex_tc1
      (completed [TaskAt 1 0 4, TaskAt 1 0 3, TaskAt 1 0 2, TaskAt 1 0 1, TaskAt 1 0 0,
                  TaskAt 0 0 1, TaskAt 0 0 0] 2)"
    by (simp only: Suc_1)
  then show ?thesis
    by (rule completed_task) simp_all
qed






text \<open>
  C4 as stated fails: at the first stage of the worked example the
  \<open>ClearBoundary\<close> task of the block is added with the empty dependency, not with
  the block's \<open>StartReceiving\<close> task of the same scope as predecessor.
\<close>

theorem clear_boundary_dependency_counterexample:
  "MakeTaskCollection ex_drv ex_alloc [ex_block] 1 = Inr ([ex_block1], ex_tc1)
   \<and> task_at ex_tc1 (TaskAt 0 0 0)
       = Some \<lparr>dependency = none, func = StartReceiving 0 ''1'' BoundaryCommSubset_all\<rparr>
   \<and> task_at ex_tc1 (TaskAt 2 0 0)
       = Some \<lparr>dependency = none, func = ClearBoundary 0 ''1'' BoundaryCommSubset_all\<rparr>
   \<and> dependency (tasks (ex_tc1 ! 2 ! 0) ! 0) \<noteq> TaskAt 0 0 0"
  using ex_run1 by (simp add: ex_tc1_def task_at.simps)

lemma clear_boundary_after_start_receiving_on_return:
  assumes "MakeTaskCollection drv alloc blocks stage = Inr (blocks', tc)"
    and "i < length blocks"
  shows "task_at tc (TaskAt 0 i 0) =
          Some \<lparr>dependency = none,
                func = StartReceiving i (stage_name drv ! nat stage) BoundaryCommSubset_all\<rparr>
    \<and> task_at tc (TaskAt 2 i 0) =
          Some \<lparr>dependency = none,
                func = ClearBoundary i (stage_name drv ! nat stage) BoundaryCommSubset_all\<rparr>
    \<and> (\<forall>s. reachable tc s \<and> progress s (TaskAt 2 i 0) \<noteq> pending \<longrightarrow>
          progress s (TaskAt 0 i 0) = finished complete)"
proof -
  note shape = MakeTaskCollection_shape [OF assms(1)]
  from region_A_list [OF assms] obtain flag where
    listA: "tc ! 0 ! i = \<lparr>region_id = 0, list_id = i, tasks =
        [\<lparr>dependency = none,
          func = StartReceiving i (stage_name drv ! nat stage) BoundaryCommSubset_all\<rparr>,
         \<lparr>dependency = none,
          func = (if flag then CalculateFluxesWScratch i (stage_name drv ! nat (stage - 1)) stage
                  else CalculateFluxes i (stage_name drv ! nat (stage - 1)) stage)\<rparr>]\<rparr>"
    by blast
  note listC = region_C_list [OF assms]
  from listA shape(1,2) assms(2) have
    a: "task_at tc (TaskAt 0 i 0) =
          Some \<lparr>dependency = none,
                func = StartReceiving i (stage_name drv ! nat stage) BoundaryCommSubset_all\<rparr>"
    and in_a: "in_region tc 0 (TaskAt 0 i 0)"
    by (simp_all add: task_at.simps)
  from listC shape(1,3) assms(2) have
    c: "task_at tc (TaskAt 2 i 0) =
          Some \<lparr>dependency = none,
                func = ClearBoundary i (stage_name drv ! nat stage) BoundaryCommSubset_all\<rparr>"
    and in_c: "in_region tc 2 (TaskAt 2 i 0)"
    by (simp_all add: task_at.simps)
  have "progress s (TaskAt 0 i 0) = finished complete"
    if "reachable tc s" "progress s (TaskAt 2 i 0) \<noteq> pending" for s
    using region_barrier [OF that(1) in_a in_c _ that(2)] by simp
  with a c show ?thesis by blast
qed

text \<open>
  C4, amended. For every block and every stage, the \<open>ClearBoundary\<close> task for the
  scope \<open>all\<close> is the first task of the block's Region C list and has no
  predecessor; the \<open>StartReceiving\<close> task for the same scope and the same
  container is the first task of the block's Region A list. The barrier between
  the regions alone orders them: in every state the executor can reach, if
  \<open>ClearBoundary\<close> is no longer pending then \<open>StartReceiving\<close> is complete.
  The call returns a task collection exactly when the stage and the mesh are
  ready, for a mesh of any number of blocks; the statement holds of whatever it
  returns.
\<close>

theorem clear_boundary_after_start_receiving:
  "((\<exists>blocks' tc. MakeTaskCollection drv alloc blocks stage = Inr (blocks', tc))
      \<longleftrightarrow> ready drv blocks stage)
   \<and> (MakeTaskCollection drv alloc blocks stage = Inr (blocks', tc)
        \<and> i < length blocks \<longrightarrow>
        task_at tc (TaskAt 0 i 0) =
              Some \<lparr>dependency = none,
                    func = StartReceiving i (stage_name drv ! nat stage) BoundaryCommSubset_all\<rparr>
        \<and> task_at tc (TaskAt 2 i 0) =
              Some \<lparr>dependency = none,
                    func = ClearBoundary i (stage_name drv ! nat stage) BoundaryCommSubset_all\<rparr>
        \<and> (\<forall>s. reachable tc s \<and> progress s (TaskAt 2 i 0) \<noteq> pending \<longrightarrow>
              progress s (TaskAt 0 i 0) = finished complete))"
  apply (rule conjI)
   apply (rule MakeTaskCollection_returns_iff)
  apply (rule impI)
  apply (erule conjE)
  apply (rule clear_boundary_after_start_receiving_on_return; assumption)
  done

theorem clear_boundary_after_start_receiving_witness:
  "ready ex_drv [ex_block] 1
   \<and> (\<exists>blocks' tc. MakeTaskCollection ex_drv ex_alloc [ex_block] 1 = Inr (blocks', tc))
   \<and> MakeTaskCollection ex_drv ex_alloc [ex_block] 1 = Inr ([ex_block1], ex_tc1)
   \<and> (0::nat) < length [ex_block]
   \<and> reachable ex_tc1
       (completed [TaskAt 2 0 0, TaskAt 1 0 4, TaskAt 1 0 3, TaskAt 1 0 2, TaskAt 1 0 1,
                   TaskAt 1 0 0, TaskAt 0 0 1, TaskAt 0 0 0] 2)
   \<and> progress (completed [TaskAt 2 0 0, TaskAt 1 0 4, TaskAt 1 0 3, TaskAt 1 0 2, TaskAt 1 0 1,
                   TaskAt 1 0 0, TaskAt 0 0 1, TaskAt 0 0 0] 2) (TaskAt 2 0 0) \<noteq> pending
   \<and> progress (completed [TaskAt 2 0 0, TaskAt 1 0 4, TaskAt 1 0 3, TaskAt 1 0 2, TaskAt 1 0 1,
                   TaskAt 1 0 0, TaskAt 0 0 1, TaskAt 0 0 0] 2) (TaskAt 0 0 0)
       = finished complete
   \<and> task_at ex_tc1 (TaskAt 2 0 0)
       = Some \<lparr>dependency = none, func = ClearBoundary 0 ''1'' BoundaryCommSubset_all\<rparr>"
proof -
  let ?s = "completed [TaskAt 2 0 0, TaskAt 1 0 4, TaskAt 1 0 3, TaskAt 1 0 2, TaskAt 1 0 1,
                   TaskAt 1 0 0, TaskAt 0 0 1, TaskAt 0 0 0] 2"
  have i: "(0::nat) < length [ex_block]" by simp
  note order = clear_boundary_after_start_receiving [THEN conjunct2, THEN mp,
      OF conjI [OF ex_run1 i]]
  have started: "progress ?s (TaskAt 2 0 0) \<noteq> pending"
    by (simp add: completed_def)
  from order [THEN conjunct2, THEN conjunct2, rule_format, of ?s] ex_reachable started
  have fin: "progress ?s (TaskAt 0 0 0) = finished complete"
    by simp
  from order [THEN conjunct2, THEN conjunct1]
  have clear: "task_at ex_tc1 (TaskAt 2 0 0)
       = Some \<lparr>dependency = none, func = ClearBoundary 0 ''1'' BoundaryCommSubset_all\<rparr>"
    by (simp add: ex_drv_def)
  from ex_run1 i ex_reachable started fin clear have shown: "MakeTaskCollection ex_drv ex_alloc [ex_block] 1 = Inr ([ex_block1], ex_tc1)
   \<and> (0::nat) < length [ex_block]
   \<and> reachable ex_tc1
       (completed [TaskAt 2 0 0, TaskAt 1 0 4, TaskAt 1 0 3, TaskAt 1 0 2, TaskAt 1 0 1,
                   TaskAt 1 0 0, TaskAt 0 0 1, TaskAt 0 0 0] 2)
   \<and> progress (completed [TaskAt 2 0 0, TaskAt 1 0 4, TaskAt 1 0 3, TaskAt 1 0 2, TaskAt 1 0 1,
                   TaskAt 1 0 0, TaskAt 0 0 1, TaskAt 0 0 0] 2) (TaskAt 2 0 0) \<noteq> pending
   \<and> progress (completed [TaskAt 2 0 0, TaskAt 1 0 4, TaskAt 1 0 3, TaskAt 1 0 2, TaskAt 1 0 1,
                   TaskAt 1 0 0, TaskAt 0 0 1, TaskAt 0 0 0] 2) (TaskAt 0 0 0)
       = finished complete
   \<and> task_at ex_tc1 (TaskAt 2 0 0)
       = Some \<lparr>dependency = none, func = ClearBoundary 0 ''1'' BoundaryCommSubset_all\<rparr>"
    by simp
  have returns: "\<exists>blocks' tc. MakeTaskCollection ex_drv ex_alloc [ex_block] 1 = Inr (blocks', tc)"
    by (rule clear_boundary_after_start_receiving [THEN conjunct1, THEN iffD2, OF ex_ready1])
  show ?thesis
    by (rule conjI [OF ex_ready1 conjI [OF returns shown]])
qed

end
